theory Spec2Isabelle
  imports Main
begin

section \<open>Text and bytes\<close>

text \<open>
  Python text is modelled as \<open>string\<close>, one \<open>char\<close> per code point, for the code points
  below 256; a byte string (\<open>bytes\<close>) is a \<open>char list\<close> as well, one \<open>char\<close> per byte.
\<close>

type_synonym bytes = "char list"

definition isspace :: "char \<Rightarrow> bool" where
  \<comment> \<open>the characters \<open>str.strip()\<close> removes: \<open>str.isspace\<close> below code point 256\<close>
  "isspace c = (of_char c \<in> {9, 10, 11, 12, 13, 28, 29, 30, 31, 32, 133, 160 :: nat})"

definition py_strip :: "string \<Rightarrow> string" where
  \<comment> \<open>\<open>s.strip()\<close>\<close>
  "py_strip s = rev (dropWhile isspace (rev (dropWhile isspace s)))"

definition py_slice_to :: "int \<Rightarrow> 'a list \<Rightarrow> 'a list" where
  \<comment> \<open>\<open>s[:n]\<close>; a negative \<open>n\<close> counts from the end\<close>
  "py_slice_to n s = (if 0 \<le> n then take (nat n) s else take (length s - nat (- n)) s)"

definition endswith :: "'a list \<Rightarrow> 'a list \<Rightarrow> bool" where
  \<comment> \<open>\<open>s.endswith(suffix)\<close>\<close>
  "endswith s suffix = (length suffix \<le> length s \<and> drop (length s - length suffix) s = suffix)"

definition lower_char :: "char \<Rightarrow> char" where
  \<comment> \<open>\<open>str.lower\<close> on one code point below 256: A-Z, and the Latin-1 capitals but the
      multiplication sign\<close>
  "lower_char c =
     (let n = (of_char c :: nat)
      in if (65 \<le> n \<and> n \<le> 90) \<or> (192 \<le> n \<and> n \<le> 222 \<and> n \<noteq> 215)
         then char_of (n + 32) else c)"

definition str_lower :: "string \<Rightarrow> string" where
  \<comment> \<open>\<open>s.lower()\<close>\<close>
  "str_lower s = map lower_char s"

definition upper_char :: "char \<Rightarrow> string" where
  \<comment> \<open>\<open>str.upper\<close> on one code point below 256: a-z, the Latin-1 small letters but the
      division sign, and the sharp s, which becomes two letters. The micro sign and the
      y with diaeresis have their capitals beyond code point 255 and are left as they
      are here.\<close>
  "upper_char c =
     (let n = (of_char c :: nat)
      in if (97 \<le> n \<and> n \<le> 122) \<or> (224 \<le> n \<and> n \<le> 254 \<and> n \<noteq> 247)
         then [char_of (n - 32)]
         else if n = 223 then ''SS'' else [c])"

definition str_upper :: "string \<Rightarrow> string" where
  \<comment> \<open>\<open>s.upper()\<close>\<close>
  "str_upper s = concat (map upper_char s)"

section \<open>Input sanitizer (app/utils/validation.py)\<close>

text \<open>
  \<open>bleach\<close> is a third-party library. Its \<open>clean(text, tags, attributes={}, strip=True)\<close>
  is a parameter \<open>clean\<close> of every operation that sanitizes: \<open>clean tags text\<close>. The two
  call sites pass \<open>attributes={}\<close> and \<open>strip=True\<close>.
\<close>

type_synonym cleaner = "string list \<Rightarrow> string \<Rightarrow> string"

definition sanitize_string :: "cleaner \<Rightarrow> string \<Rightarrow> int option \<Rightarrow> string" where
  \<comment> \<open>The \<open>isinstance\<close> guard of the source is the type \<open>string\<close> of the argument.
      \<open>if max_length and len(cleaned) > max_length\<close>: \<open>None\<close> and \<open>0\<close> are both falsy.\<close>
  "sanitize_string clean input_str max_length =
     (let cleaned = clean [] input_str;
          cleaned = py_strip cleaned
      in case max_length of
           None \<Rightarrow> cleaned
         | Some n \<Rightarrow>
             if n \<noteq> 0 \<and> int (length cleaned) > n then py_slice_to n cleaned else cleaned)"

definition allowed_tags :: "string list" where
  "allowed_tags = [''p'', ''br'', ''strong'', ''em'', ''u'', ''ul'', ''ol'', ''li'']"

definition sanitize_text :: "cleaner \<Rightarrow> string \<Rightarrow> string" where
  "sanitize_text clean input_str = py_strip (clean allowed_tags input_str)"

text \<open>
  A small cleaner in the sense of the specification ("strips all markup except a fixed
  allow-list"), to run the operations on concrete inputs: a span from \<open><\<close> to the next
  \<open>>\<close> is dropped unless its text is an allowed tag name, possibly after a \<open>/\<close>; an
  unterminated span is dropped. Text without \<open><\<close> is left as it is, as \<open>bleach.clean\<close>
  leaves text without markup characters.
\<close>

fun strip_markup_from :: "string list \<Rightarrow> string option \<Rightarrow> string \<Rightarrow> string" where
  "strip_markup_from tags None [] = []"
| "strip_markup_from tags (Some t) [] = []"
| "strip_markup_from tags None (c # cs) =
     (if c = CHR ''<'' then strip_markup_from tags (Some []) cs
      else c # strip_markup_from tags None cs)"
| "strip_markup_from tags (Some t) (c # cs) =
     (if c = CHR ''>''
      then (if t \<in> set tags \<or> (\<exists>u \<in> set tags. t = CHR ''/'' # u)
            then ''<'' @ t @ ''>'' else []) @ strip_markup_from tags None cs
      else strip_markup_from tags (Some (t @ [c])) cs)"

definition strip_markup :: cleaner where
  "strip_markup tags s = strip_markup_from tags None s"

section \<open>Errors (app/utils/errors.py, app/main.py)\<close>

datatype http_error =
    AppException nat string string  \<comment> \<open>\<open>status_code\<close>, \<open>error_code\<close>, \<open>message\<close>\<close>
  | HTTPException nat string  \<comment> \<open>\<open>status_code\<close>, \<open>detail\<close>\<close>
  | RequestValidationError "string list"
      \<comment> \<open>raised by the framework when a request body fails its schema: the fields in error\<close>
  | Unhandled string  \<comment> \<open>an exception that no handler catches\<close>

fun digits10 :: "nat \<Rightarrow> string" where
  "digits10 n =
     (if n < 10 then [char_of (48 + n)] else digits10 (n div 10) @ [char_of (48 + n mod 10)])"

declare digits10.simps [simp del]

type_synonym uuid = nat

definition uuid_str :: "uuid \<Rightarrow> string" where
  \<comment> \<open>Identifiers are numbered in the order of their generation; \<open>str\<close> of one is its
      decimal numeral.\<close>
  "uuid_str u = digits10 u"

definition NotFoundError :: "string \<Rightarrow> string \<Rightarrow> http_error" where
  "NotFoundError resource resource_id =
     AppException 404 ''NOT_FOUND''
       (resource @ '' not found'' @
        (if resource_id \<noteq> [] then '' (ID: '' @ resource_id @ '')'' else []))"

definition ValidationError :: "string \<Rightarrow> http_error" where
  "ValidationError message = AppException 422 ''VALIDATION_ERROR'' message"

definition ConflictError :: "string \<Rightarrow> http_error" where
  "ConflictError message = AppException 409 ''CONFLICT'' message"

definition ResponseValidationError :: http_error where
  \<comment> \<open>raised by the framework when what an endpoint returns fails the \<open>response_model\<close> of
      its route; main.py has no handler for it, so the server answers 500\<close>
  "ResponseValidationError = Unhandled ''ResponseValidationError''"

definition error_code_map :: "nat \<Rightarrow> string" where
  \<comment> \<open>\<open>error_code_map.get(exc.status_code, "HTTP_ERROR")\<close> of \<open>http_exception_handler\<close>\<close>
  "error_code_map s =
     (if s = 401 then ''UNAUTHORIZED'' else if s = 403 then ''FORBIDDEN''
      else if s = 404 then ''NOT_FOUND'' else if s = 409 then ''CONFLICT''
      else if s = 413 then ''PAYLOAD_TOO_LARGE'' else if s = 429 then ''TOO_MANY_REQUESTS''
      else if s = 500 then ''INTERNAL_SERVER_ERROR'' else ''HTTP_ERROR'')"

fun status_code :: "http_error \<Rightarrow> nat" where
  \<comment> \<open>the status of the response the handlers of main.py build; an exception without a
      handler is the server's 500\<close>
  "status_code (AppException s c m) = s"
| "status_code (HTTPException s d) = s"
| "status_code (RequestValidationError m) = 422"
| "status_code (Unhandled m) = 500"

fun error_code :: "http_error \<Rightarrow> string option" where
  \<comment> \<open>the \<open>code\<close> of the error envelope; the server's own 500 has no envelope\<close>
  "error_code (AppException s c m) = Some c"
| "error_code (HTTPException s d) = Some (error_code_map s)"
| "error_code (RequestValidationError m) = Some ''VALIDATION_ERROR''"
| "error_code (Unhandled m) = None"

section \<open>Data model (app/models.py, app/schemas.py)\<close>

text \<open>
  A table row is a record; the fields carry a prefix, since the models share column
  names. The columns \<open>created_at\<close>, \<open>updated_at\<close> and \<open>timestamp\<close>, which the storage
  fills from its clock, are left out. A date is the ordinal of its day.
\<close>

datatype EventType = WORKSHOP | HACKATHON | SEMINAR | BOOTCAMP | LECTURE

datatype ResourceLevel = BEGINNER | INTERMEDIATE | ADVANCED

record Event =
  ev_id :: uuid
  ev_title :: string
  ev_type :: EventType
  ev_date :: int
  ev_description :: "string option"
  ev_is_active :: bool

record Registration =
  reg_id :: uuid
  reg_event_id :: uuid
  reg_operative_name :: string
  reg_moodle_id :: string

record Resource =
  res_id :: uuid
  res_title :: string
  res_level :: ResourceLevel
  res_file_url :: string
  res_file_size :: nat

record HackathonTeam =
  team_id :: uuid
  team_event_name :: string
  team_team_name :: string

record TeamMember =
  mem_id :: uuid
  mem_team_id :: uuid
  mem_name :: string
  mem_email :: string
  mem_moodle_id :: string
  mem_roll_no :: string
  mem_division :: string
  mem_department :: string
  mem_year :: string
  mem_mobile :: string
  mem_is_leader :: bool

definition length_between :: "nat \<Rightarrow> nat \<Rightarrow> string \<Rightarrow> bool" where
  \<comment> \<open>\<open>Field(..., min_length=lo, max_length=hi)\<close>\<close>
  "length_between lo hi v = (lo \<le> length v \<and> length v \<le> hi)"

text \<open>
  The response schemas. A route with a \<open>response_model\<close> validates what its endpoint
  returns. \<open>EventResponse\<close> and \<open>ResourceResponse\<close> inherit the constraint of the title
  from \<open>EventBase\<close> and \<open>ResourceBase\<close>; their other fields hold a value of their type in
  every row. \<open>HackathonTeamResponse\<close> and \<open>TeamMemberResponse\<close> constrain no field.
\<close>

definition EventResponse_ok :: "Event \<Rightarrow> bool" where
  \<comment> \<open>\<open>title: str = Field(..., min_length=1, max_length=200)\<close>\<close>
  "EventResponse_ok e = length_between 1 200 (ev_title e)"

definition ResourceResponse_ok :: "Resource \<Rightarrow> bool" where
  \<comment> \<open>\<open>title: str = Field(..., min_length=1, max_length=200)\<close>\<close>
  "ResourceResponse_ok r = length_between 1 200 (res_title r)"

text \<open>
  The request schemas. In \<open>EventUpdate\<close> the line \<open>date: Optional[date] = None\<close> binds the
  name \<open>date\<close> to \<open>None\<close> in the class body before its annotation is evaluated, so the
  annotation is \<open>Optional[None]\<close>: the field of a validated \<open>EventUpdate\<close> has the type
  \<open>NoneType\<close>, whose only value is \<open>None\<close>. (\<open>EventBase\<close> writes \<open>date: date\<close> without a value,
  and its field is a date.) \<open>EventUpdateBody\<close> is the body of the request as it arrives.
\<close>

datatype NoneType = PyNone

record EventCreate =
  ec_title :: string
  ec_type :: EventType
  ec_date :: int
  ec_description :: "string option"

record EventUpdate =
  eu_title :: "string option"
  eu_type :: "EventType option"
  eu_date :: NoneType
  eu_description :: "string option"
  eu_is_active :: "bool option"

record EventUpdateBody =
  eb_title :: "string option"
  eb_type :: "EventType option"
  eb_date :: "int option"
  eb_description :: "string option"
  eb_is_active :: "bool option"

record RegistrationCreate =
  rc_event_id :: uuid
  rc_operative_name :: string
  rc_moodle_id :: string

record TeamMemberBase =
  tm_name :: string
  tm_email :: string
  tm_moodle_id :: string
  tm_roll_no :: string
  tm_division :: string
  tm_department :: string
  tm_year :: string
  tm_mobile :: string
  tm_is_leader :: bool

record HackathonTeamCreate =
  tc_event_name :: string
  tc_team_name :: string
  tc_team_members :: "TeamMemberBase list"

definition field_errors :: "string \<Rightarrow> bool \<Rightarrow> string list" where
  \<comment> \<open>the location of a field in the errors of a body, when its check fails\<close>
  "field_errors loc ok = (if ok then [] else [loc])"

section \<open>Storage\<close>

text \<open>
  The persistence store is the committed content of the tables, in insertion order, and
  the number of the next identifier (\<open>uuid.uuid4\<close> never repeats one). A request works
  on a session: what it has not committed when it fails is not in the store. The store
  enforces the constraints models.py declares with \<open>UniqueConstraint\<close>, \<open>unique=True\<close>
  and \<open>ForeignKey\<close>, and raises \<open>IntegrityError\<close> on a row that breaks one. The length
  limits of the columns and failures of the connection are not modelled.
\<close>

record database =
  events :: "Event list"
  registrations :: "Registration list"
  hackathon_teams :: "HackathonTeam list"
  team_members :: "TeamMember list"
  resources :: "Resource list"
  next_uuid :: uuid

datatype db_error = IntegrityError

definition unique_event_moodle :: "Registration \<Rightarrow> database \<Rightarrow> bool" where
  \<comment> \<open>\<open>UniqueConstraint('event_id', 'moodle_id')\<close>: no stored row has the pair of \<open>r\<close>\<close>
  "unique_event_moodle r db =
     (\<not> (\<exists>x \<in> set (registrations db).
            reg_event_id x = reg_event_id r \<and> reg_moodle_id x = reg_moodle_id r))"

definition insert_registration :: "Registration \<Rightarrow> database \<Rightarrow> db_error + database" where
  \<comment> \<open>\<open>db.add(registration); db.commit()\<close>\<close>
  "insert_registration r db =
     (if unique_event_moodle r db \<and> reg_event_id r \<in> set (map ev_id (events db))
      then Inr (db\<lparr>registrations := registrations db @ [r], next_uuid := Suc (next_uuid db)\<rparr>)
      else Inl IntegrityError)"

definition unique_event_team_name :: "HackathonTeam \<Rightarrow> database \<Rightarrow> bool" where
  \<comment> \<open>\<open>UniqueConstraint('event_name', 'team_name')\<close>\<close>
  "unique_event_team_name t db =
     (\<not> (\<exists>x \<in> set (hackathon_teams db).
            team_event_name x = team_event_name t \<and> team_team_name x = team_team_name t))"

definition commit_event :: "Event \<Rightarrow> database \<Rightarrow> database" where
  \<comment> \<open>\<open>db.commit()\<close> after the fields of a loaded event were assigned: the row of that
      identifier is updated\<close>
  "commit_event e db = db\<lparr>events := map (\<lambda>x. if ev_id x = ev_id e then e else x) (events db)\<rparr>"

section \<open>Events (app/api/events.py)\<close>

text \<open>
  An operation takes the store and returns the store it leaves; its answer is the
  exception it raises (\<open>Inl\<close>) or the status of its route and the body (\<open>Inr\<close>). What the
  endpoint returns is validated against the \<open>response_model\<close> of the route after the
  endpoint has run, that is after its commit. The operations that require an
  administrator are modelled for an authenticated one. The current day \<open>date.today()\<close>
  is the parameter \<open>today\<close>.
\<close>

type_synonym 'a response = "http_error + nat \<times> 'a"

definition get_events :: "EventType option \<Rightarrow> bool option \<Rightarrow> database \<Rightarrow> Event list response" where
  \<comment> \<open>\<open>order_by(Event.date.desc())\<close>: latest first; \<open>response_model=List[EventResponse]\<close>\<close>
  "get_events type is_active db =
     (let query = events db;
          query = (case type of None \<Rightarrow> query | Some t \<Rightarrow> filter (\<lambda>e. ev_type e = t) query);
          query = (case is_active of None \<Rightarrow> query
                   | Some a \<Rightarrow> filter (\<lambda>e. ev_is_active e = a) query);
          events = sort_key (\<lambda>e. - ev_date e) query
      in if list_all EventResponse_ok events then Inr (200, events)
         else Inl ResponseValidationError)"

definition get_event :: "uuid \<Rightarrow> database \<Rightarrow> Event response" where
  \<comment> \<open>\<open>response_model=EventResponse\<close>\<close>
  "get_event event_id db =
     (case find (\<lambda>e. ev_id e = event_id) (events db) of
        None \<Rightarrow> Inl (NotFoundError ''Event'' (uuid_str event_id))
      | Some event \<Rightarrow>
          if EventResponse_ok event then Inr (200, event) else Inl ResponseValidationError)"

definition create_event ::
  "cleaner \<Rightarrow> int \<Rightarrow> EventCreate \<Rightarrow> database \<Rightarrow> Event response \<times> database" where
  \<comment> \<open>\<open>sanitize_text(event_data.description) if event_data.description else None\<close>: an
      empty description is falsy. \<open>response_model=EventResponse\<close>: the event is committed
      when the response is validated.\<close>
  "create_event clean today event_data db =
     (let title = sanitize_string clean (ec_title event_data) (Some 200);
          description =
            (case ec_description event_data of
               None \<Rightarrow> None
             | Some d \<Rightarrow> if d = [] then None else Some (sanitize_text clean d))
      in if ec_date event_data < today
         then (Inl (ValidationError ''Event date cannot be in the past''), db)
         else
           let event = \<lparr>ev_id = next_uuid db, ev_title = title, ev_type = ec_type event_data,
                         ev_date = ec_date event_data, ev_description = description,
                         ev_is_active = True\<rparr>;
               db' = db\<lparr>events := events db @ [event], next_uuid := Suc (next_uuid db)\<rparr>
           in if EventResponse_ok event then (Inr (201, event), db')
              else (Inl ResponseValidationError, db'))"

definition update_event ::
  "cleaner \<Rightarrow> uuid \<Rightarrow> EventUpdate \<Rightarrow> database \<Rightarrow> Event response \<times> database" where
  \<comment> \<open>The fields are assigned on the loaded object; the store changes at \<open>db.commit()\<close>.
      \<open>if event_data.date is not None\<close>: the date of a validated \<open>EventUpdate\<close> is \<open>None\<close>, so
      the branch, with its comparison to \<open>date.today()\<close>, its raise and its assignment of
      the date, is never entered. \<open>response_model=EventResponse\<close>.\<close>
  "update_event clean event_id event_data db =
     (case find (\<lambda>e. ev_id e = event_id) (events db) of
        None \<Rightarrow> (Inl (NotFoundError ''Event'' (uuid_str event_id)), db)
      | Some event \<Rightarrow>
          let event = (case eu_title event_data of
                         None \<Rightarrow> event
                       | Some t \<Rightarrow> event\<lparr>ev_title := sanitize_string clean t (Some 200)\<rparr>);
              event = (case eu_type event_data of
                         None \<Rightarrow> event
                       | Some t \<Rightarrow> event\<lparr>ev_type := t\<rparr>);
              event = (case eu_date event_data of PyNone \<Rightarrow> event);
              event = (case eu_description event_data of
                         None \<Rightarrow> event
                       | Some d \<Rightarrow> event\<lparr>ev_description := Some (sanitize_text clean d)\<rparr>);
              event = (case eu_is_active event_data of
                         None \<Rightarrow> event
                       | Some a \<Rightarrow> event\<lparr>ev_is_active := a\<rparr>);
              db' = commit_event event db
          in if EventResponse_ok event then (Inr (200, event), db')
             else (Inl ResponseValidationError, db'))"

definition EventUpdate_errors :: "EventUpdateBody \<Rightarrow> string list" where
  \<comment> \<open>the fields of a body that fail \<open>EventUpdate\<close>: a title outside its lengths, and a date
      that is not \<open>None\<close>\<close>
  "EventUpdate_errors body =
     field_errors ''title''
       (case eb_title body of None \<Rightarrow> True | Some t \<Rightarrow> length_between 1 200 t) @
     field_errors ''date'' (eb_date body = None)"

definition EventUpdate_parsed :: "EventUpdateBody \<Rightarrow> EventUpdate" where
  "EventUpdate_parsed body =
     \<lparr>eu_title = eb_title body, eu_type = eb_type body, eu_date = PyNone,
      eu_description = eb_description body, eu_is_active = eb_is_active body\<rparr>"

definition put_event ::
  "cleaner \<Rightarrow> uuid \<Rightarrow> EventUpdateBody \<Rightarrow> database \<Rightarrow> Event response \<times> database" where
  \<comment> \<open>the route \<open>PUT /api/events/{event_id}\<close>: schema first, then the endpoint\<close>
  "put_event clean event_id body db =
     (case EventUpdate_errors body of
        [] \<Rightarrow> update_event clean event_id (EventUpdate_parsed body) db
      | e # es \<Rightarrow> (Inl (RequestValidationError (e # es)), db))"

definition delete_event :: "uuid \<Rightarrow> database \<Rightarrow> unit response \<times> database" where
  \<comment> \<open>soft delete; the route answers 204 and has no \<open>response_model\<close>\<close>
  "delete_event event_id db =
     (case find (\<lambda>e. ev_id e = event_id) (events db) of
        None \<Rightarrow> (Inl (NotFoundError ''Event'' (uuid_str event_id)), db)
      | Some event \<Rightarrow> (Inr (204, ()), commit_event (event\<lparr>ev_is_active := False\<rparr>) db))"

section \<open>Registrations (app/api/registrations.py)\<close>

definition RegistrationResponse_ok :: "Registration \<Rightarrow> database \<Rightarrow> bool" where
  \<comment> \<open>\<open>event: Optional[EventResponse]\<close> is read from the relationship \<open>registration.event\<close>,
      the event row of the foreign key; the other fields are unconstrained\<close>
  "RegistrationResponse_ok r db =
     (case find (\<lambda>e. ev_id e = reg_event_id r) (events db) of
        None \<Rightarrow> True
      | Some event \<Rightarrow> EventResponse_ok event)"

definition create_registration ::
  "cleaner \<Rightarrow> RegistrationCreate \<Rightarrow> database \<Rightarrow> Registration response \<times> database" where
  \<comment> \<open>\<open>response_model=RegistrationResponse\<close>: the row is committed when the response is
      validated\<close>
  "create_registration clean registration_data db =
     (let operative_name =
            sanitize_string clean (rc_operative_name registration_data) (Some 100);
          moodle_id = rc_moodle_id registration_data
      in case find (\<lambda>e. ev_id e = rc_event_id registration_data \<and> ev_is_active e)
                (events db) of
           None \<Rightarrow> (Inl (NotFoundError ''Event'' (uuid_str (rc_event_id registration_data))), db)
         | Some event \<Rightarrow>
             let registration =
                   \<lparr>reg_id = next_uuid db, reg_event_id = rc_event_id registration_data,
                    reg_operative_name = operative_name, reg_moodle_id = moodle_id\<rparr>
             in case insert_registration registration db of
                  Inl IntegrityError \<Rightarrow>
                    (Inl (ConflictError
                            (''Registration already exists for Moodle ID '' @ moodle_id @
                             '' and event '' @ ev_title event)), db)
                | Inr db' \<Rightarrow>
                    if RegistrationResponse_ok registration db'
                    then (Inr (201, registration), db')
                    else (Inl ResponseValidationError, db'))"

section \<open>Hackathon teams (app/schemas.py, app/api/hackathon_teams.py)\<close>

text \<open>
  The framework checks a request body against its schema before it calls the endpoint,
  and raises \<open>RequestValidationError\<close> with the fields in error. \<open>EmailStr\<close> belongs to a
  third-party validator: \<open>email_validate\<close> is a parameter, \<open>None\<close> on an address it
  refuses, the normalised address otherwise.
\<close>

definition mobile_pattern :: "string \<Rightarrow> bool" where
  \<comment> \<open>\<open>pattern=r'^[0-9]{10}$'\<close>\<close>
  "mobile_pattern v =
     (length v = 10 \<and> list_all (\<lambda>c. 48 \<le> (of_char c :: nat) \<and> (of_char c :: nat) \<le> 57) v)"

definition isdigit :: "string \<Rightarrow> bool" where
  \<comment> \<open>\<open>str.isdigit\<close> below code point 256: the ten digits and the superscripts 1, 2, 3;
      false on the empty string\<close>
  "isdigit v =
     (v \<noteq> [] \<and>
      list_all (\<lambda>c. (48 \<le> (of_char c :: nat) \<and> (of_char c :: nat) \<le> 57) \<or>
                     (of_char c :: nat) \<in> {178, 179, 185}) v)"

definition validate_mobile :: "string \<Rightarrow> string + string" where
  "validate_mobile v =
     (if \<not> isdigit v \<or> length v \<noteq> 10
      then Inl ''Mobile number must be exactly 10 digits'' else Inr v)"

definition validate_team_members :: "TeamMemberBase list \<Rightarrow> string + TeamMemberBase list" where
  "validate_team_members v =
     (if length v \<noteq> 4 then Inl ''Team must have exactly 4 members''
      else
        let leaders = filter tm_is_leader v
        in if length leaders \<noteq> 1 then Inl ''Team must have exactly 1 leader'' else Inr v)"

definition TeamMemberBase_errors ::
  "(string \<Rightarrow> string option) \<Rightarrow> string \<Rightarrow> TeamMemberBase \<Rightarrow> string list" where
  "TeamMemberBase_errors email_validate loc m =
     field_errors (loc @ ''.name'') (length_between 1 100 (tm_name m)) @
     field_errors (loc @ ''.email'') (email_validate (tm_email m) \<noteq> None) @
     field_errors (loc @ ''.moodle_id'') (length_between 1 20 (tm_moodle_id m)) @
     field_errors (loc @ ''.roll_no'') (length_between 1 20 (tm_roll_no m)) @
     field_errors (loc @ ''.division'') (length_between 1 5 (tm_division m)) @
     field_errors (loc @ ''.department'') (length_between 1 100 (tm_department m)) @
     field_errors (loc @ ''.year'') (length_between 1 10 (tm_year m)) @
     field_errors (loc @ ''.mobile'')
       (mobile_pattern (tm_mobile m) \<and> validate_mobile (tm_mobile m) = Inr (tm_mobile m))"

definition HackathonTeamCreate_errors ::
  "(string \<Rightarrow> string option) \<Rightarrow> HackathonTeamCreate \<Rightarrow> string list" where
  \<comment> \<open>\<open>min_items=4, max_items=4\<close>, then the members, then the validator of the list\<close>
  "HackathonTeamCreate_errors email_validate body =
     field_errors ''event_name'' (length_between 1 200 (tc_event_name body)) @
     field_errors ''team_name'' (length_between 1 100 (tc_team_name body)) @
     (let v = tc_team_members body
      in if length v < 4 \<or> 4 < length v then [''team_members'']
         else
           let errs = concat (map (\<lambda>(i, m). TeamMemberBase_errors email_validate
                                               (''team_members.'' @ digits10 i) m)
                                  (enumerate 0 v))
           in if errs \<noteq> [] then errs
              else (case validate_team_members v of
                      Inl msg \<Rightarrow> [''team_members'']
                    | Inr v' \<Rightarrow> []))"

definition HackathonTeamCreate_parsed ::
  "(string \<Rightarrow> string option) \<Rightarrow> HackathonTeamCreate \<Rightarrow> HackathonTeamCreate" where
  \<comment> \<open>the validated object: the addresses as the validator normalised them\<close>
  "HackathonTeamCreate_parsed email_validate body =
     body\<lparr>tc_team_members :=
            map (\<lambda>m. case email_validate (tm_email m) of
                        None \<Rightarrow> m
                      | Some a \<Rightarrow> m\<lparr>tm_email := a\<rparr>)
                (tc_team_members body)\<rparr>"

definition new_member :: "cleaner \<Rightarrow> uuid \<Rightarrow> uuid \<times> TeamMemberBase \<Rightarrow> TeamMember" where
  \<comment> \<open>the body of the loop over \<open>team_data.team_members\<close>\<close>
  "new_member clean team = (\<lambda>(i, member_data).
     \<lparr>mem_id = i, mem_team_id = team,
      mem_name = sanitize_string clean (tm_name member_data) (Some 100),
      mem_email = str_lower (tm_email member_data),
      mem_moodle_id = tm_moodle_id member_data,
      mem_roll_no = tm_roll_no member_data,
      mem_division = str_upper (tm_division member_data),
      mem_department = tm_department member_data,
      mem_year = tm_year member_data,
      mem_mobile = tm_mobile member_data,
      mem_is_leader = tm_is_leader member_data\<rparr>)"

definition create_hackathon_team ::
  "cleaner \<Rightarrow> HackathonTeamCreate \<Rightarrow> database
     \<Rightarrow> (HackathonTeam \<times> TeamMember list) response \<times> database" where
  \<comment> \<open>\<open>db.flush()\<close> inserts the team and meets the unique constraint; the members have
      none, so the storage raises nothing else and the branch \<open>except Exception\<close> (500) is
      not taken. The body is the team with its members.\<close>
  "create_hackathon_team clean team_data db =
     (let team_name = sanitize_string clean (tc_team_name team_data) (Some 100);
          team = \<lparr>team_id = next_uuid db, team_event_name = tc_event_name team_data,
                  team_team_name = team_name\<rparr>
      in if \<not> unique_event_team_name team db
         then (Inl (ConflictError
                      (''Team name '' @ [CHR 0x27] @ team_name @ [CHR 0x27] @
                       '' already exists for '' @ tc_event_name team_data)), db)
         else
           let members = map (new_member clean (team_id team))
                             (enumerate (Suc (next_uuid db)) (tc_team_members team_data))
           in (Inr (201, (team, members)),
               db\<lparr>hackathon_teams := hackathon_teams db @ [team],
                  team_members := team_members db @ members,
                  next_uuid := Suc (next_uuid db) + length members\<rparr>))"

definition post_hackathon_teams ::
  "cleaner \<Rightarrow> (string \<Rightarrow> string option) \<Rightarrow> HackathonTeamCreate \<Rightarrow> database
     \<Rightarrow> (HackathonTeam \<times> TeamMember list) response \<times> database" where
  \<comment> \<open>the route \<open>POST /api/hackathon-teams\<close>: schema first, then the endpoint\<close>
  "post_hackathon_teams clean email_validate body db =
     (case HackathonTeamCreate_errors email_validate body of
        [] \<Rightarrow> create_hackathon_team clean (HackathonTeamCreate_parsed email_validate body) db
      | e # es \<Rightarrow> (Inl (RequestValidationError (e # es)), db))"

section \<open>File service (app/services/file_service.py, app/config.py)\<close>

text \<open>
  The file store maps the path of a regular file to its content; paths are written
  in their normal form. An operation on resources works on the store, the file store
  and the sequence of the effects performed so far, to which each write, unlink and
  commit appends itself. \<open>python-magic\<close> is optional and third-party: \<open>sniff\<close> is \<open>None\<close>
  when it is not installed or raises, the type it detects otherwise.
\<close>

record Settings =
  upload_dir :: string
  max_file_size_mb :: nat

definition default_settings :: Settings where
  "default_settings = \<lparr>upload_dir = ''uploads'', max_file_size_mb = 10\<rparr>"

definition max_file_size_bytes :: "Settings \<Rightarrow> nat" where
  "max_file_size_bytes settings = max_file_size_mb settings * 1024 * 1024"

record UploadFile =
  filename :: "string option"
  content_type :: "string option"
  content :: bytes  \<comment> \<open>what \<open>file.file.read()\<close> returns\<close>

datatype effect = FileDeleted string | FileWritten string | RowCommitted uuid | RowDeleted uuid

record world =
  store :: database
  files :: "string \<rightharpoonup> bytes"
  trace :: "effect list"

definition validate_pdf_file :: "UploadFile \<Rightarrow> bool \<times> string option" where
  "validate_pdf_file file =
     (if (case filename file of
            None \<Rightarrow> True
          | Some name \<Rightarrow> name = [] \<or> \<not> endswith (str_lower name) ''.pdf'')
      then (False, Some ''File must be a PDF (.pdf extension required)'')
      else if content_type file \<noteq> Some ''application/pdf''
      then (False, Some ''File must be of type application/pdf'')
      else (True, None))"

definition validate_pdf_magic_bytes :: "(bytes \<Rightarrow> string option) \<Rightarrow> bytes \<Rightarrow> bool" where
  "validate_pdf_magic_bytes sniff file_content =
     (if length file_content < 4 then False
      else if take 4 file_content \<noteq> ''%PDF'' then False
      else (case sniff file_content of
              None \<Rightarrow> True
            | Some detected_type \<Rightarrow> detected_type = ''application/pdf''))"

definition save_pdf_file ::
  "Settings \<Rightarrow> (bytes \<Rightarrow> string option) \<Rightarrow> UploadFile \<Rightarrow> world
     \<Rightarrow> (http_error + string \<times> nat) \<times> world" where
  "save_pdf_file settings sniff file w =
     (let file_content = content file;
          file_size = length file_content
      in if file_size > max_file_size_bytes settings
         then (Inl (HTTPException 413
                      (''File size exceeds maximum allowed size of '' @
                       digits10 (max_file_size_mb settings) @ ''MB'')), w)
         else if \<not> validate_pdf_magic_bytes sniff file_content
         then (Inl (HTTPException 400 ''File is not a valid PDF''), w)
         else
           let file_id = uuid_str (next_uuid (store w));
               name = file_id @ ''.pdf'';
               file_path = upload_dir settings @ ''/'' @ name;
               file_url = ''uploads/'' @ name
           in (Inr (file_url, file_size),
               w\<lparr>store := (store w)\<lparr>next_uuid := Suc (next_uuid (store w))\<rparr>,
                 files := (files w)(file_path \<mapsto> file_content),
                 trace := trace w @ [FileWritten file_path]\<rparr>))"

definition file_exists :: "string \<Rightarrow> world \<Rightarrow> bool" where
  "file_exists file_url w = (files w file_url \<noteq> None)"

definition delete_file :: "string \<Rightarrow> world \<Rightarrow> bool \<times> world" where
  "delete_file file_url w =
     (if file_exists file_url w
      then (True, w\<lparr>files := (files w)(file_url := None),
                    trace := trace w @ [FileDeleted file_url]\<rparr>)
      else (False, w))"

section \<open>Resources (app/api/resources.py)\<close>

definition insert_resource :: "Resource \<Rightarrow> world \<Rightarrow> db_error + world" where
  \<comment> \<open>\<open>db.add(resource); db.commit()\<close>; \<open>file_url\<close> is unique\<close>
  "insert_resource r w =
     (if \<exists>x \<in> set (resources (store w)). res_file_url x = res_file_url r
      then Inl IntegrityError
      else Inr (w\<lparr>store := (store w)\<lparr>resources := resources (store w) @ [r],
                                        next_uuid := Suc (next_uuid (store w))\<rparr>,
                   trace := trace w @ [RowCommitted (res_id r)]\<rparr>))"

definition commit_resource :: "Resource \<Rightarrow> world \<Rightarrow> db_error + world" where
  \<comment> \<open>\<open>db.commit()\<close> after the fields of a loaded resource were assigned\<close>
  "commit_resource r w =
     (if \<exists>x \<in> set (resources (store w)). res_id x \<noteq> res_id r \<and> res_file_url x = res_file_url r
      then Inl IntegrityError
      else Inr (w\<lparr>store := (store w)\<lparr>resources :=
                              map (\<lambda>x. if res_id x = res_id r then r else x)
                                  (resources (store w))\<rparr>,
                   trace := trace w @ [RowCommitted (res_id r)]\<rparr>))"

definition remove_resource :: "Resource \<Rightarrow> world \<Rightarrow> world" where
  \<comment> \<open>\<open>db.delete(resource); db.commit()\<close>\<close>
  "remove_resource r w =
     w\<lparr>store := (store w)\<lparr>resources :=
                  filter (\<lambda>x. res_id x \<noteq> res_id r) (resources (store w))\<rparr>,
       trace := trace w @ [RowDeleted (res_id r)]\<rparr>"

definition upload_detail :: "string option \<Rightarrow> string" where
  \<comment> \<open>\<open>HTTPException(detail=error_msg)\<close>: without a detail, the phrase of the status\<close>
  "upload_detail error_msg = (case error_msg of None \<Rightarrow> ''Bad Request'' | Some m \<Rightarrow> m)"

text \<open>The routes that create and update a resource have \<open>response_model=ResourceResponse\<close>.\<close>

definition create_resource ::
  "Settings \<Rightarrow> (bytes \<Rightarrow> string option) \<Rightarrow> cleaner \<Rightarrow> string \<Rightarrow> ResourceLevel \<Rightarrow> UploadFile
     \<Rightarrow> world \<Rightarrow> Resource response \<times> world" where
  "create_resource settings sniff clean title level file w =
     (case validate_pdf_file file of
        (False, error_msg) \<Rightarrow> (Inl (HTTPException 400 (upload_detail error_msg)), w)
      | (True, error_msg) \<Rightarrow>
          let sanitized_title = sanitize_string clean title (Some 200)
          in case save_pdf_file settings sniff file w of
               (Inl err, w1) \<Rightarrow> (Inl err, w1)
             | (Inr (file_url, file_size), w1) \<Rightarrow>
                 let resource = \<lparr>res_id = next_uuid (store w1), res_title = sanitized_title,
                                  res_level = level, res_file_url = file_url,
                                  res_file_size = file_size\<rparr>
                 in case insert_resource resource w1 of
                      Inl IntegrityError \<Rightarrow> (Inl (Unhandled ''IntegrityError''), w1)
                    | Inr w2 \<Rightarrow>
                        if ResourceResponse_ok resource then (Inr (201, resource), w2)
                        else (Inl ResponseValidationError, w2))"

definition update_resource ::
  "Settings \<Rightarrow> (bytes \<Rightarrow> string option) \<Rightarrow> cleaner \<Rightarrow> uuid \<Rightarrow> string option
     \<Rightarrow> ResourceLevel option \<Rightarrow> UploadFile option \<Rightarrow> world \<Rightarrow> Resource response \<times> world" where
  "update_resource settings sniff clean resource_id title level file w =
     (case find (\<lambda>r. res_id r = resource_id) (resources (store w)) of
        None \<Rightarrow> (Inl (NotFoundError ''Resource'' (uuid_str resource_id)), w)
      | Some resource \<Rightarrow>
          let resource = (case title of
                            None \<Rightarrow> resource
                          | Some t \<Rightarrow> resource\<lparr>res_title := sanitize_string clean t (Some 200)\<rparr>);
              resource = (case level of
                            None \<Rightarrow> resource
                          | Some l \<Rightarrow> resource\<lparr>res_level := l\<rparr>)
          in case (case file of
                     None \<Rightarrow> (Inr resource, w)
                   | Some f \<Rightarrow>
                       (case validate_pdf_file f of
                          (False, error_msg) \<Rightarrow>
                            (Inl (HTTPException 400 (upload_detail error_msg)), w)
                        | (True, error_msg) \<Rightarrow>
                            let old_file_path = res_file_url resource;
                                w1 = (if file_exists old_file_path w
                                      then snd (delete_file old_file_path w) else w)
                            in case save_pdf_file settings sniff f w1 of
                                 (Inl err, w2) \<Rightarrow> (Inl err, w2)
                               | (Inr (file_url, file_size), w2) \<Rightarrow>
                                   (Inr (resource\<lparr>res_file_url := file_url,
                                                  res_file_size := file_size\<rparr>), w2))) of
               (Inl err, w') \<Rightarrow> (Inl err, w')
             | (Inr resource, w') \<Rightarrow>
                 (case commit_resource resource w' of
                    Inl IntegrityError \<Rightarrow> (Inl (Unhandled ''IntegrityError''), w')
                  | Inr w'' \<Rightarrow>
                      if ResourceResponse_ok resource then (Inr (200, resource), w'')
                      else (Inl ResponseValidationError, w'')))"

definition delete_resource :: "uuid \<Rightarrow> world \<Rightarrow> unit response \<times> world" where
  "delete_resource resource_id w =
     (case find (\<lambda>r. res_id r = resource_id) (resources (store w)) of
        None \<Rightarrow> (Inl (NotFoundError ''Resource'' (uuid_str resource_id)), w)
      | Some resource \<Rightarrow>
          let file_path = res_file_url resource;
              w1 = (if file_exists file_path w then snd (delete_file file_path w) else w)
          in (Inr (204, ()), remove_resource resource w1))"

section \<open>Credential verifier (app/security.py)\<close>

text \<open>
  \<open>argon2\<close> is a third-party library. \<open>ph.verify(hash, password)\<close> returns or raises one
  of its exceptions: \<open>VerifyMismatchError\<close>, a subclass of \<open>VerificationError\<close>, when the
  password does not match; \<open>VerificationError\<close> when verification fails for another
  reason; \<open>InvalidHashError\<close> when the hash is so clearly invalid that it cannot be
  passed to Argon2. The verifier is the parameter \<open>ph_verify\<close>.
\<close>

datatype argon2_outcome = Verified | VerifyMismatchError | VerificationError | InvalidHashError

definition verify_password ::
  "(string \<Rightarrow> string \<Rightarrow> argon2_outcome) \<Rightarrow> string \<Rightarrow> string \<Rightarrow> argon2_outcome + bool" where
  \<comment> \<open>\<open>except VerifyMismatchError\<close> catches that class alone; any other exception leaves
      the function (\<open>Inl\<close>)\<close>
  "verify_password ph_verify plain_password hashed_password =
     (case ph_verify hashed_password plain_password of
        Verified \<Rightarrow> Inr True
      | VerifyMismatchError \<Rightarrow> Inr False
      | VerificationError \<Rightarrow> Inl VerificationError
      | InvalidHashError \<Rightarrow> Inl InvalidHashError)"

definition argon2_verify ::
  "(string \<Rightarrow> string \<Rightarrow> argon2_outcome) \<Rightarrow> string \<Rightarrow> string \<Rightarrow> argon2_outcome" where
  \<comment> \<open>\<open>PasswordHasher.verify\<close>: the first nine characters of the hash select the Argon2
      variant, and a hash with none of the three headers is an \<open>InvalidHashError\<close>; what
      Argon2 answers on a hash with a header is the parameter \<open>core\<close>.\<close>
  "argon2_verify core hash password =
     (if take 9 hash \<in> set [''$argon2i$'', ''$argon2d$'', ''$argon2id'']
      then core hash password else InvalidHashError)"

section \<open>The upload checks as the specification lists them\<close>

text \<open>
  The specification (4.4) lists four checks "in order, short-circuiting on first
  failure" and names the reason of each rejection. \<open>spec_first_failure\<close> follows these
  words; it is compared with the code below. \<open>reject_status\<close> is the status the
  specification gives each reason, \<open>reject_detail\<close> the detail the code attaches.
\<close>

datatype RejectReason = BadExtension | BadContentType | TooLarge | InvalidSignature

definition spec_first_failure :: "Settings \<Rightarrow> UploadFile \<Rightarrow> RejectReason option" where
  "spec_first_failure settings file =
     (if \<not> (case filename file of
               None \<Rightarrow> False
             | Some name \<Rightarrow> endswith (str_lower name) ''.pdf'')
      then Some BadExtension
      else if content_type file \<noteq> Some ''application/pdf'' then Some BadContentType
      else if length (content file) > max_file_size_bytes settings then Some TooLarge
      else if take 4 (content file) \<noteq> ''%PDF'' then Some InvalidSignature
      else None)"

fun reject_status :: "RejectReason \<Rightarrow> nat" where
  "reject_status BadExtension = 400"
| "reject_status BadContentType = 400"
| "reject_status TooLarge = 413"
| "reject_status InvalidSignature = 400"

fun reject_detail :: "Settings \<Rightarrow> RejectReason \<Rightarrow> string" where
  "reject_detail settings BadExtension = ''File must be a PDF (.pdf extension required)''"
| "reject_detail settings BadContentType = ''File must be of type application/pdf''"
| "reject_detail settings TooLarge =
     ''File size exceeds maximum allowed size of '' @
     digits10 (max_file_size_mb settings) @ ''MB''"
| "reject_detail settings InvalidSignature = ''File is not a valid PDF''"

section \<open>Order of effects\<close>

definition only_after :: "effect \<Rightarrow> effect \<Rightarrow> effect list \<Rightarrow> bool" where
  \<comment> \<open>in the sequence \<open>tr\<close>, \<open>b\<close> happens only after \<open>a\<close> has happened: no \<open>b\<close> stands before
      the first \<open>a\<close>\<close>
  "only_after b a tr = (b \<notin> set (takeWhile (\<lambda>e. e \<noteq> a) tr))"

section \<open>Concrete inputs\<close>

text \<open>Stores, requests and uploads on which the operations are run below.\<close>

definition event0 :: Event where
  "event0 = \<lparr>ev_id = 1, ev_title = ''CTF Night'', ev_type = WORKSHOP, ev_date = 20,
             ev_description = None, ev_is_active = True\<rparr>"

definition db0 :: database where
  "db0 = \<lparr>events = [event0], registrations = [], hackathon_teams = [], team_members = [],
          resources = [], next_uuid = 2\<rparr>"

definition db_empty :: database where
  "db_empty = \<lparr>events = [], registrations = [], hackathon_teams = [], team_members = [],
               resources = [], next_uuid = 1\<rparr>"

definition db_blank :: database where
  \<comment> \<open>a store whose one event is active and has an empty title\<close>
  "db_blank = \<lparr>events = [\<lparr>ev_id = 1, ev_title = [], ev_type = WORKSHOP, ev_date = 20,
                            ev_description = None, ev_is_active = True\<rparr>],
               registrations = [], hackathon_teams = [], team_members = [],
               resources = [], next_uuid = 2\<rparr>"

definition registration0 :: RegistrationCreate where
  "registration0 = \<lparr>rc_event_id = 1, rc_operative_name = '' <b>Ada</b> '',
                    rc_moodle_id = ''21104001''\<rparr>"

definition member0 :: TeamMemberBase where
  "member0 = \<lparr>tm_name = ''Ada'', tm_email = ''Ada@APSIT.edu.in'', tm_moodle_id = ''21104001'',
              tm_roll_no = ''7'', tm_division = ''b'', tm_department = ''IT'', tm_year = ''TE'',
              tm_mobile = ''9876543210'', tm_is_leader = True\<rparr>"

definition member1 :: TeamMemberBase where
  "member1 = \<lparr>tm_name = ''Bob'', tm_email = ''bob@apsit.edu.in'', tm_moodle_id = ''21104002'',
              tm_roll_no = ''8'', tm_division = ''A'', tm_department = ''IT'', tm_year = ''TE'',
              tm_mobile = ''9876543211'', tm_is_leader = False\<rparr>"

definition team0 :: HackathonTeamCreate where
  "team0 = \<lparr>tc_event_name = ''HackAPSIT'', tc_team_name = ''Null Pointers'',
            tc_team_members = [member0, member1, member1, member1]\<rparr>"

definition with_at_sign :: "string \<Rightarrow> string option" where
  \<comment> \<open>an address validator to run the schema with: it accepts what holds an at sign\<close>
  "with_at_sign a = (if CHR ''@'' \<in> set a then Some a else None)"

definition resource0 :: Resource where
  "resource0 = \<lparr>res_id = 5, res_title = ''Intro to CTFs'', res_level = BEGINNER,
                res_file_url = ''uploads/4.pdf'', res_file_size = 10\<rparr>"

definition world0 :: world where
  "world0 = \<lparr>store = \<lparr>events = [], registrations = [], hackathon_teams = [],
                       team_members = [], resources = [resource0], next_uuid = 6\<rparr>,
             files = [''uploads/4.pdf'' \<mapsto> ''%PDF-1.4 a''],
             trace = []\<rparr>"

definition upload0 :: UploadFile where
  "upload0 = \<lparr>filename = Some ''Guide.PDF'', content_type = Some ''application/pdf'',
              content = ''%PDF-1.7 b''\<rparr>"

definition no_sniff :: "bytes \<Rightarrow> string option" where
  \<comment> \<open>\<open>python-magic\<close> is not installed\<close>
  "no_sniff b = None"

section \<open>Properties of the sanitizer\<close>

lemma py_strip_Nil [simp]: "py_strip [] = []"
  by (simp add: py_strip_def)

lemma dropWhile_rev_last:
  assumes "s \<noteq> []" and "\<not> P (last s)"
  shows "dropWhile P (rev s) = rev s"
  using assms by (cases s rule: rev_cases) auto

lemma py_strip_fixed:
  assumes "s = [] \<or> (\<not> isspace (hd s) \<and> \<not> isspace (last s))"
  shows "py_strip s = s"
proof (cases s)
  case Nil
  then show ?thesis by simp
next
  case (Cons a as)
  with assms have h: "\<not> isspace (hd s)" and l: "\<not> isspace (last s)" by auto
  from Cons h have 1: "dropWhile isspace s = s" by simp
  from Cons l have 2: "dropWhile isspace (rev s) = rev s"
    by (intro dropWhile_rev_last) auto
  show ?thesis by (simp add: py_strip_def 1 2)
qed

lemma py_strip_hd:
  assumes "py_strip s \<noteq> []"
  shows "\<not> isspace (hd (py_strip s))"
proof -
  let ?d = "dropWhile isspace s"
  let ?e = "dropWhile isspace (rev ?d)"
  from assms have ne: "?e \<noteq> []" by (simp add: py_strip_def)
  have dne: "?d \<noteq> []"
  proof
    assume "?d = []"
    then have "?e = []" by (simp only: rev.simps dropWhile.simps)
    with ne show False by simp
  qed
  have h: "\<not> isspace (hd ?d)" using dne by (rule hd_dropWhile)
  obtain x xs where d: "?d = x # xs" using dne by (cases ?d) auto
  with h have x: "\<not> isspace x" by simp
  have "rev ?d = rev xs @ [x]" using d by simp
  then have "?e = dropWhile isspace (rev xs) @ [x]" using x
    by (simp add: dropWhile_append)
  then have "rev ?e = x # rev (dropWhile isspace (rev xs))" by simp
  then show ?thesis using x by (simp add: py_strip_def)
qed

lemma hd_py_slice_to:
  assumes "py_slice_to n s \<noteq> []"
  shows "hd (py_slice_to n s) = hd s"
  using assms by (auto simp: py_slice_to_def hd_take split: if_splits)

lemma sanitize_string_hd:
  assumes "sanitize_string clean x m \<noteq> []"
  shows "\<not> isspace (hd (sanitize_string clean x m))"
proof -
  let ?c = "py_strip (clean [] x)"
  have ne: "?c \<noteq> []" using assms
    by (auto simp: sanitize_string_def Let_def py_slice_to_def split: option.splits if_splits)
  have "hd (sanitize_string clean x m) = hd ?c" using assms
    by (auto simp: sanitize_string_def Let_def hd_py_slice_to split: option.splits if_splits)
  with py_strip_hd [OF ne] show ?thesis by simp
qed

lemma sanitize_string_length:
  assumes "0 < n"
  shows "int (length (sanitize_string clean x (Some n))) \<le> n"
  using assms by (auto simp: sanitize_string_def Let_def py_slice_to_def)

lemma sanitize_string_fixed:
  assumes "clean [] y = y" and "py_strip y = y"
    and "case m of None \<Rightarrow> True | Some n \<Rightarrow> n = 0 \<or> int (length y) \<le> n"
  shows "sanitize_string clean y m = y"
  using assms by (auto simp: sanitize_string_def Let_def split: option.splits)

text \<open>
  Claim C8, as the specification states it: for every string \<open>x\<close> and every maximum
  length \<open>n\<close>, \<open>sanitize_strict(sanitize_strict(x, n), n) = sanitize_strict(x, n)\<close>.
  \<open>sanitize_string\<close> trims the whitespace before it truncates, so the truncation can
  leave whitespace at the end, which the second application trims: with a maximum of 3,
  \<open>ab  cd\<close> (two spaces) becomes \<open>ab\<close> and a space, and that becomes \<open>ab\<close>. The input
  holds no markup for the cleaner to change.
\<close>

theorem sanitize_string_not_idempotent:
  "sanitize_string strip_markup ''ab  cd'' (Some 3) = ''ab '' \<and>
   sanitize_string strip_markup (sanitize_string strip_markup ''ab  cd'' (Some 3)) (Some 3)
     = ''ab'' \<and>
   sanitize_string strip_markup (sanitize_string strip_markup ''ab  cd'' (Some 3)) (Some 3)
     \<noteq> sanitize_string strip_markup ''ab  cd'' (Some 3)"
  by code_simp

text \<open>
  Claim C8, amended: for every string \<open>x\<close> and every maximum length that is absent or not
  negative, if the result of \<open>sanitize_string\<close> does not end in whitespace and the cleaner
  leaves that result as it is (it holds no markup), then sanitizing the result again
  returns it unchanged.
\<close>

theorem sanitize_string_idempotent_when_stable:
  assumes n: "case max_length of None \<Rightarrow> True | Some n \<Rightarrow> 0 \<le> n"
    and c: "clean [] (sanitize_string clean x max_length) = sanitize_string clean x max_length"
    and l: "sanitize_string clean x max_length = [] \<or>
            \<not> isspace (last (sanitize_string clean x max_length))"
  shows "sanitize_string clean (sanitize_string clean x max_length) max_length =
         sanitize_string clean x max_length"
proof -
  let ?y = "sanitize_string clean x max_length"
  have "?y = [] \<or> (\<not> isspace (hd ?y) \<and> \<not> isspace (last ?y))"
    using l sanitize_string_hd [of clean x max_length] by blast
  then have s: "py_strip ?y = ?y" by (rule py_strip_fixed)
  have b: "case max_length of None \<Rightarrow> True | Some k \<Rightarrow> k = 0 \<or> int (length ?y) \<le> k"
  proof (cases max_length)
    case None
    then show ?thesis by simp
  next
    case (Some k)
    with n have "k = 0 \<or> 0 < k" by auto
    then show ?thesis using sanitize_string_length [of k clean x] Some by auto
  qed
  from c s b show ?thesis by (rule sanitize_string_fixed)
qed

theorem sanitize_string_idempotent_when_stable_witness:
  "(case Some (3::int) of None \<Rightarrow> True | Some n \<Rightarrow> 0 \<le> n) \<and>
   strip_markup [] (sanitize_string strip_markup ''  <b>ab</b>cd  '' (Some 3)) =
     sanitize_string strip_markup ''  <b>ab</b>cd  '' (Some 3) \<and>
   \<not> isspace (last (sanitize_string strip_markup ''  <b>ab</b>cd  '' (Some 3))) \<and>
   sanitize_string strip_markup ''  <b>ab</b>cd  '' (Some 3) = ''abc'' \<and>
   sanitize_string strip_markup
     (sanitize_string strip_markup ''  <b>ab</b>cd  '' (Some 3)) (Some 3) = ''abc''"
proof -
  have y: "sanitize_string strip_markup ''  <b>ab</b>cd  '' (Some 3) = ''abc''"
    by code_simp
  have c: "strip_markup [] ''abc'' = ''abc''" by code_simp
  have l: "\<not> isspace (last ''abc'')" by code_simp
  show ?thesis
    using sanitize_string_idempotent_when_stable
      [of "Some 3" strip_markup "''  <b>ab</b>cd  ''"] y c l
    by simp
qed

section \<open>Properties of the registrations\<close>

lemma find_active_None:
  "(find (\<lambda>e. ev_id e = i \<and> ev_is_active e) es = None) =
   (\<forall>e \<in> set es. ev_id e = i \<longrightarrow> \<not> ev_is_active e)"
  by (auto simp: find_None_iff)

lemma find_active_Some:
  assumes "\<exists>e \<in> set es. ev_id e = i \<and> ev_is_active e"
  obtains e where "find (\<lambda>e. ev_id e = i \<and> ev_is_active e) es = Some e"
    and "ev_id e = i" and "ev_is_active e" and "e \<in> set es"
proof -
  from assms have "find (\<lambda>e. ev_id e = i \<and> ev_is_active e) es \<noteq> None"
    by (auto simp: find_None_iff)
  then obtain e where f: "find (\<lambda>e. ev_id e = i \<and> ev_is_active e) es = Some e" by auto
  then have "ev_id e = i \<and> ev_is_active e \<and> e \<in> set es"
    by (auto simp: find_Some_iff)
  with f that show thesis by blast
qed

text \<open>
  What holds when the event of the pair passes its response schema: a pair
  \<open>(event_id, moodle_id)\<close> that is not registered yet is submitted twice, against an event
  that exists and is active and whose title has 1 to 200 characters (the second request
  may carry another name). The first call answers 201 and appends one row with the
  pair; the second call raises the 409 \<open>CONFLICT\<close> and leaves the store as the first call
  left it; exactly one row of the store has the pair.
\<close>

lemma create_registration_twice:
  assumes active: "\<exists>e \<in> set (events db). ev_id e = rc_event_id req \<and> ev_is_active e"
    and titled: "\<forall>e \<in> set (events db). ev_id e = rc_event_id req \<longrightarrow> EventResponse_ok e"
    and fresh: "\<not> (\<exists>r \<in> set (registrations db).
                     reg_event_id r = rc_event_id req \<and> reg_moodle_id r = rc_moodle_id req)"
    and same: "rc_event_id req' = rc_event_id req" "rc_moodle_id req' = rc_moodle_id req"
  shows "\<exists>reg db1 err.
           create_registration clean req db = (Inr (201, reg), db1) \<and>
           registrations db1 = registrations db @ [reg] \<and>
           reg_event_id reg = rc_event_id req \<and> reg_moodle_id reg = rc_moodle_id req \<and>
           create_registration clean req' db1 = (Inl err, db1) \<and>
           status_code err = 409 \<and> error_code err = Some ''CONFLICT'' \<and>
           length (filter (\<lambda>r. reg_event_id r = rc_event_id req \<and>
                                reg_moodle_id r = rc_moodle_id req) (registrations db1)) = 1"
proof -
  from active obtain e
    where f: "find (\<lambda>e. ev_id e = rc_event_id req \<and> ev_is_active e) (events db) = Some e"
      and e: "ev_id e = rc_event_id req" "e \<in> set (events db)"
    by (rule find_active_Some)
  let ?reg = "\<lparr>reg_id = next_uuid db, reg_event_id = rc_event_id req,
               reg_operative_name = sanitize_string clean (rc_operative_name req) (Some 100),
               reg_moodle_id = rc_moodle_id req\<rparr>"
  let ?db1 = "db\<lparr>registrations := registrations db @ [?reg], next_uuid := Suc (next_uuid db)\<rparr>"
  have fk: "rc_event_id req \<in> ev_id ` set (events db)" using e by force
  have ins: "insert_registration ?reg db = Inr ?db1"
    using fresh fk by (simp add: insert_registration_def unique_event_moodle_def)
  have "find (\<lambda>e. ev_id e = rc_event_id req) (events db) \<noteq> None"
    using e by (auto simp: find_None_iff)
  then obtain e' where "find (\<lambda>e. ev_id e = rc_event_id req) (events db) = Some e'"
    by auto
  moreover from this have "ev_id e' = rc_event_id req \<and> e' \<in> set (events db)"
    by (auto simp: find_Some_iff)
  ultimately have ok: "RegistrationResponse_ok ?reg ?db1"
    using titled by (simp add: RegistrationResponse_ok_def)
  have first: "create_registration clean req db = (Inr (201, ?reg), ?db1)"
    using f ins ok by (simp add: create_registration_def Let_def)
  have f1: "find (\<lambda>e. ev_id e = rc_event_id req' \<and> ev_is_active e) (events ?db1) = Some e"
    using f same by simp
  let ?reg' = "\<lparr>reg_id = next_uuid ?db1, reg_event_id = rc_event_id req',
                reg_operative_name = sanitize_string clean (rc_operative_name req') (Some 100),
                reg_moodle_id = rc_moodle_id req'\<rparr>"
  have ins': "insert_registration ?reg' ?db1 = Inl IntegrityError"
    using same by (simp add: insert_registration_def unique_event_moodle_def)
  let ?err = "ConflictError (''Registration already exists for Moodle ID '' @
                            rc_moodle_id req' @ '' and event '' @ ev_title e)"
  have second: "create_registration clean req' ?db1 = (Inl ?err, ?db1)"
    using f1 ins' by (simp add: create_registration_def Let_def)
  have cnt: "length (filter (\<lambda>r. reg_event_id r = rc_event_id req \<and>
                                  reg_moodle_id r = rc_moodle_id req) (registrations ?db1)) = 1"
  proof -
    have "filter (\<lambda>r. reg_event_id r = rc_event_id req \<and>
                       reg_moodle_id r = rc_moodle_id req) (registrations db) = []"
      using fresh by (auto simp: filter_empty_conv)
    then show ?thesis by simp
  qed
  show ?thesis
  proof (intro exI conjI)
    show "create_registration clean req db = (Inr (201, ?reg), ?db1)" by (rule first)
    show "registrations ?db1 = registrations db @ [?reg]" by simp
    show "reg_event_id ?reg = rc_event_id req" by simp
    show "reg_moodle_id ?reg = rc_moodle_id req" by simp
    show "create_registration clean req' ?db1 = (Inl ?err, ?db1)" by (rule second)
    show "status_code ?err = 409" by (simp add: ConflictError_def)
    show "error_code ?err = Some ''CONFLICT''" by (simp add: ConflictError_def)
    show "length (filter (\<lambda>r. reg_event_id r = rc_event_id req \<and>
                               reg_moodle_id r = rc_moodle_id req) (registrations ?db1)) = 1"
      by (rule cnt)
  qed
qed

lemma create_registration_twice_at_db0:
  "(\<exists>e \<in> set (events db0). ev_id e = rc_event_id registration0 \<and> ev_is_active e) \<and>
   \<not> (\<exists>r \<in> set (registrations db0).
         reg_event_id r = rc_event_id registration0 \<and>
         reg_moodle_id r = rc_moodle_id registration0) \<and>
   create_registration strip_markup registration0 db0 =
     (Inr (201, \<lparr>reg_id = 2, reg_event_id = 1, reg_operative_name = ''Ada'',
                 reg_moodle_id = ''21104001''\<rparr>),
      db0\<lparr>registrations := [\<lparr>reg_id = 2, reg_event_id = 1, reg_operative_name = ''Ada'',
                              reg_moodle_id = ''21104001''\<rparr>],
          next_uuid := 3\<rparr>) \<and>
   create_registration strip_markup registration0
     (db0\<lparr>registrations := [\<lparr>reg_id = 2, reg_event_id = 1, reg_operative_name = ''Ada'',
                               reg_moodle_id = ''21104001''\<rparr>],
          next_uuid := 3\<rparr>) =
     (Inl (AppException 409 ''CONFLICT''
             ''Registration already exists for Moodle ID 21104001 and event CTF Night''),
      db0\<lparr>registrations := [\<lparr>reg_id = 2, reg_event_id = 1, reg_operative_name = ''Ada'',
                              reg_moodle_id = ''21104001''\<rparr>],
          next_uuid := 3\<rparr>)"
proof -
  have h1: "\<exists>e \<in> set (events db0). ev_id e = rc_event_id registration0 \<and> ev_is_active e"
    by code_simp
  have h2: "\<not> (\<exists>r \<in> set (registrations db0).
                 reg_event_id r = rc_event_id registration0 \<and>
                 reg_moodle_id r = rc_moodle_id registration0)"
    by code_simp
  have c1: "create_registration strip_markup registration0 db0 =
     (Inr (201, \<lparr>reg_id = 2, reg_event_id = 1, reg_operative_name = ''Ada'',
                 reg_moodle_id = ''21104001''\<rparr>),
      db0\<lparr>registrations := [\<lparr>reg_id = 2, reg_event_id = 1, reg_operative_name = ''Ada'',
                              reg_moodle_id = ''21104001''\<rparr>],
          next_uuid := 3\<rparr>)"
    by code_simp
  have c2: "create_registration strip_markup registration0
     (db0\<lparr>registrations := [\<lparr>reg_id = 2, reg_event_id = 1, reg_operative_name = ''Ada'',
                               reg_moodle_id = ''21104001''\<rparr>],
          next_uuid := 3\<rparr>) =
     (Inl (AppException 409 ''CONFLICT''
             ''Registration already exists for Moodle ID 21104001 and event CTF Night''),
      db0\<lparr>registrations := [\<lparr>reg_id = 2, reg_event_id = 1, reg_operative_name = ''Ada'',
                              reg_moodle_id = ''21104001''\<rparr>],
          next_uuid := 3\<rparr>)"
    by code_simp
  from h1 h2 c1 c2 show ?thesis by blast
qed

lemma create_event_blank_title:
  "create_event strip_markup 10
     \<lparr>ec_title = ''<b></b>'', ec_type = WORKSHOP, ec_date = 20, ec_description = None\<rparr>
     db_empty = (Inl ResponseValidationError, db_blank)"
  by code_simp

text \<open>
  Claim C1: for every pair submitted twice against an existing active event, the first
  call answers 201. The route validates what \<open>create_registration\<close> returns against
  \<open>RegistrationResponse\<close>, whose \<open>event\<close> is an \<open>EventResponse\<close> with a title of at least one
  character, and it does so after the commit. The store \<open>db_blank\<close> holds the active event
  1 with an empty title, as \<open>create_event\<close> commits it for the title \<open><b></b>\<close>, which
  passes \<open>EventCreate\<close> and is sanitized to nothing. The first registration for that
  event is committed and the call raises \<open>ResponseValidationError\<close>, which the server
  answers with 500; the second call raises the 409 \<open>CONFLICT\<close>.
\<close>

theorem create_registration_blank_title_event:
  "create_registration strip_markup registration0 db_blank =
     (Inl ResponseValidationError,
      db_blank\<lparr>registrations := [\<lparr>reg_id = 2, reg_event_id = 1, reg_operative_name = ''Ada'',
                                    reg_moodle_id = ''21104001''\<rparr>],
               next_uuid := 3\<rparr>) \<and>
   status_code ResponseValidationError = 500 \<and>
   fst (create_registration strip_markup registration0
          (db_blank\<lparr>registrations := [\<lparr>reg_id = 2, reg_event_id = 1,
                                         reg_operative_name = ''Ada'',
                                         reg_moodle_id = ''21104001''\<rparr>],
                    next_uuid := 3\<rparr>)) =
     Inl (AppException 409 ''CONFLICT''
            ''Registration already exists for Moodle ID 21104001 and event '')"
  by code_simp

text \<open>
  Claim C6: when the \<open>event_id\<close> of a registration request refers to no event, or only to
  an event with \<open>is_active\<close> false, \<open>create_registration\<close> raises \<open>NotFoundError\<close> (404,
  \<open>NOT_FOUND\<close>, not the 409 of a conflict) and the store is left as it was.
\<close>

theorem create_registration_not_found:
  assumes "\<forall>e \<in> set (events db). ev_id e = rc_event_id req \<longrightarrow> \<not> ev_is_active e"
  shows "create_registration clean req db =
           (Inl (NotFoundError ''Event'' (uuid_str (rc_event_id req))), db) \<and>
         status_code (NotFoundError ''Event'' (uuid_str (rc_event_id req))) = 404 \<and>
         error_code (NotFoundError ''Event'' (uuid_str (rc_event_id req))) = Some ''NOT_FOUND''"
proof -
  from assms
  have "find (\<lambda>e. ev_id e = rc_event_id req \<and> ev_is_active e) (events db) = None"
    by (simp add: find_active_None)
  then show ?thesis
    by (simp add: create_registration_def NotFoundError_def)
qed

theorem create_registration_not_found_witness:
  "create_registration strip_markup registration0
     (db0\<lparr>events := [event0\<lparr>ev_is_active := False\<rparr>]\<rparr>) =
     (Inl (AppException 404 ''NOT_FOUND'' ''Event not found (ID: 1)''),
      db0\<lparr>events := [event0\<lparr>ev_is_active := False\<rparr>]\<rparr>) \<and>
   create_registration strip_markup (registration0\<lparr>rc_event_id := 9\<rparr>) db0 =
     (Inl (AppException 404 ''NOT_FOUND'' ''Event not found (ID: 9)''), db0)"
proof -
  have h1: "\<forall>e \<in> set (events (db0\<lparr>events := [event0\<lparr>ev_is_active := False\<rparr>]\<rparr>)).
              ev_id e = rc_event_id registration0 \<longrightarrow> \<not> ev_is_active e"
    by simp
  have h2: "\<forall>e \<in> set (events db0).
              ev_id e = rc_event_id (registration0\<lparr>rc_event_id := 9\<rparr>) \<longrightarrow> \<not> ev_is_active e"
    by (simp add: db0_def event0_def)
  have n1: "NotFoundError ''Event'' (uuid_str (rc_event_id registration0)) =
            AppException 404 ''NOT_FOUND'' ''Event not found (ID: 1)''"
    by code_simp
  have n2: "NotFoundError ''Event'' (uuid_str (rc_event_id (registration0\<lparr>rc_event_id := 9\<rparr>))) =
            AppException 404 ''NOT_FOUND'' ''Event not found (ID: 9)''"
    by code_simp
  from create_registration_not_found [OF h1, of strip_markup]
       create_registration_not_found [OF h2, of strip_markup]
  show ?thesis unfolding n1 n2 by blast
qed

section \<open>Properties of the events\<close>

lemma find_id_Some:
  assumes "\<exists>e \<in> set es. ev_id e = i"
  obtains e where "find (\<lambda>e. ev_id e = i) es = Some e" and "ev_id e = i" and "e \<in> set es"
proof -
  from assms have "find (\<lambda>e. ev_id e = i) es \<noteq> None"
    by (auto simp: find_None_iff)
  then obtain e where f: "find (\<lambda>e. ev_id e = i) es = Some e" by auto
  then have "ev_id e = i \<and> e \<in> set es"
    by (auto simp: find_Some_iff)
  with f that show thesis by blast
qed

lemma find_id_None:
  "(find (\<lambda>e. ev_id e = i) es = None) = (\<forall>e \<in> set es. ev_id e \<noteq> i)"
  by (auto simp: find_None_iff)

lemma find_commit_event:
  assumes "ev_id e' = i"
  shows "find (\<lambda>e. ev_id e = i) (map (\<lambda>x. if ev_id x = ev_id e' then e' else x) es) =
         (case find (\<lambda>e. ev_id e = i) es of None \<Rightarrow> None | Some e \<Rightarrow> Some e')"
  using assms by (induction es) auto

lemma get_events_ok:
  assumes "list_all EventResponse_ok (events db)"
  shows "\<exists>listing. get_events None is_active db = Inr (200, listing) \<and>
           set listing = {e \<in> set (events db).
                            case is_active of None \<Rightarrow> True | Some a \<Rightarrow> ev_is_active e = a}"
  using assms by (cases is_active) (auto simp: get_events_def Let_def list_all_iff)

text \<open>
  Claim C7, as the specification states it: after the soft deletion of an event, the
  event no longer appears in the default listing (no query filters), while a direct
  fetch still returns it with \<open>is_active\<close> false. \<open>get_events\<close> filters on \<open>is_active\<close> only
  when the query gives the filter, so the default listing keeps the deleted event: the
  store holds the one active event 1; after \<open>delete_event 1\<close> the listing without filters
  is that event, with \<open>is_active\<close> false.
\<close>

theorem soft_deleted_event_still_listed:
  "delete_event 1 db0 = (Inr (204, ()), db0\<lparr>events := [event0\<lparr>ev_is_active := False\<rparr>]\<rparr>) \<and>
   get_events None None (snd (delete_event 1 db0)) =
     Inr (200, [event0\<lparr>ev_is_active := False\<rparr>]) \<and>
   ev_id (event0\<lparr>ev_is_active := False\<rparr>) = 1"
  by code_simp

text \<open>
  Claim C7, amended: in a store whose events have titles of 1 to 200 characters, as the
  response schema of the routes requires, the soft deletion of an event of the store
  answers 204; after it a direct fetch by the identifier returns the event with
  \<open>is_active\<close> false, the listing without filters still holds the event, with \<open>is_active\<close>
  false, and the listing filtered with \<open>is_active = true\<close> holds no event of that
  identifier.
\<close>

theorem soft_delete_event:
  assumes ex: "\<exists>e \<in> set (events db). ev_id e = event_id"
    and titled: "\<forall>e \<in> set (events db). EventResponse_ok e"
  shows "\<exists>event db' listing active.
           delete_event event_id db = (Inr (204, ()), db') \<and>
           ev_id event = event_id \<and> \<not> ev_is_active event \<and>
           get_event event_id db' = Inr (200, event) \<and>
           get_events None None db' = Inr (200, listing) \<and>
           event \<in> set listing \<and>
           get_events None (Some True) db' = Inr (200, active) \<and>
           (\<forall>e \<in> set active. ev_id e \<noteq> event_id)"
proof -
  from ex obtain e where f: "find (\<lambda>e. ev_id e = event_id) (events db) = Some e"
    and e: "ev_id e = event_id" "e \<in> set (events db)"
    by (rule find_id_Some)
  let ?e = "e\<lparr>ev_is_active := False\<rparr>"
  let ?db = "commit_event ?e db"
  have id: "ev_id ?e = event_id" using e by simp
  have okE: "EventResponse_ok ?e" using titled e by (auto simp: EventResponse_ok_def)
  have evs: "events ?db = map (\<lambda>x. if ev_id x = event_id then ?e else x) (events db)"
    using e by (simp add: commit_event_def)
  have all: "list_all EventResponse_ok (events ?db)"
    using titled okE by (auto simp: evs list_all_iff)
  from get_events_ok [OF all, of None] obtain listing
    where l: "get_events None None ?db = Inr (200, listing)"
      and ls: "set listing = set (events ?db)"
    by auto
  from get_events_ok [OF all, of "Some True"] obtain active
    where a: "get_events None (Some True) ?db = Inr (200, active)"
      and as: "set active = {x \<in> set (events ?db). ev_is_active x = True}"
    by auto
  show ?thesis
  proof (intro exI conjI)
    show "delete_event event_id db = (Inr (204, ()), ?db)"
      using f by (simp add: delete_event_def)
    show "ev_id ?e = event_id" by (rule id)
    show "\<not> ev_is_active ?e" by simp
    show "get_event event_id ?db = Inr (200, ?e)"
      using find_commit_event [OF id, of "events db"] f e okE
      by (simp add: get_event_def commit_event_def)
    show "get_events None None ?db = Inr (200, listing)" by (rule l)
    show "?e \<in> set listing"
      using e by (force simp: ls evs)
    show "get_events None (Some True) ?db = Inr (200, active)" by (rule a)
    show "\<forall>x \<in> set active. ev_id x \<noteq> event_id"
      by (auto simp: as evs)
  qed
qed

theorem soft_delete_event_witness:
  "(\<exists>e \<in> set (events db0). ev_id e = 1) \<and>
   list_all EventResponse_ok (events db0) \<and>
   delete_event 1 db0 = (Inr (204, ()), db0\<lparr>events := [event0\<lparr>ev_is_active := False\<rparr>]\<rparr>) \<and>
   get_event 1 (db0\<lparr>events := [event0\<lparr>ev_is_active := False\<rparr>]\<rparr>) =
     Inr (200, event0\<lparr>ev_is_active := False\<rparr>) \<and>
   get_events None None (db0\<lparr>events := [event0\<lparr>ev_is_active := False\<rparr>]\<rparr>) =
     Inr (200, [event0\<lparr>ev_is_active := False\<rparr>]) \<and>
   get_events None (Some True) (db0\<lparr>events := [event0\<lparr>ev_is_active := False\<rparr>]\<rparr>) =
     Inr (200, [])"
proof -
  have ex: "\<exists>e \<in> set (events db0). ev_id e = 1" by code_simp
  have ok: "list_all EventResponse_ok (events db0)" by code_simp
  then have titled: "\<forall>e \<in> set (events db0). EventResponse_ok e"
    by (simp add: list_all_iff)
  have d: "delete_event 1 db0 =
             (Inr (204, ()), db0\<lparr>events := [event0\<lparr>ev_is_active := False\<rparr>]\<rparr>)"
    by code_simp
  have g: "get_event 1 (db0\<lparr>events := [event0\<lparr>ev_is_active := False\<rparr>]\<rparr>) =
             Inr (200, event0\<lparr>ev_is_active := False\<rparr>)"
    by code_simp
  have l: "get_events None None (db0\<lparr>events := [event0\<lparr>ev_is_active := False\<rparr>]\<rparr>) =
             Inr (200, [event0\<lparr>ev_is_active := False\<rparr>])"
    by code_simp
  have a: "get_events None (Some True) (db0\<lparr>events := [event0\<lparr>ev_is_active := False\<rparr>]\<rparr>) =
             Inr (200, [])"
    by code_simp
  from soft_delete_event [OF ex titled] ex ok d g l a
  show ?thesis by blast
qed

lemma create_event_past_date:
  assumes "ec_date event_data < today"
  shows "create_event clean today event_data db =
           (Inl (ValidationError ''Event date cannot be in the past''), db)"
  using assms by (simp add: create_event_def Let_def)

lemma create_event_accepted:
  assumes "today \<le> ec_date event_data"
    and "sanitize_string clean (ec_title event_data) (Some 200) \<noteq> []"
  shows "\<exists>event. create_event clean today event_data db =
                   (Inr (201, event),
                    db\<lparr>events := events db @ [event], next_uuid := Suc (next_uuid db)\<rparr>) \<and>
                 ev_date event = ec_date event_data"
proof -
  have "int (length (sanitize_string clean (ec_title event_data) (Some 200))) \<le> 200"
    by (rule sanitize_string_length) simp
  with assms show ?thesis
    by (cases "sanitize_string clean (ec_title event_data) (Some 200)")
       (simp_all add: create_event_def Let_def EventResponse_ok_def length_between_def)
qed

lemma put_event_date_at_db0:
  "put_event strip_markup 1
     \<lparr>eb_title = None, eb_type = None, eb_date = Some 10, eb_description = None,
      eb_is_active = None\<rparr> db0 =
     (Inl (RequestValidationError [''date'']), db0) \<and>
   put_event strip_markup 1
     \<lparr>eb_title = None, eb_type = None, eb_date = Some 9, eb_description = None,
      eb_is_active = None\<rparr> db0 =
     (Inl (RequestValidationError [''date'']), db0) \<and>
   put_event strip_markup 1
     \<lparr>eb_title = Some ''Late'', eb_type = None, eb_date = None, eb_description = None,
      eb_is_active = None\<rparr> db0 =
     (Inr (200, event0\<lparr>ev_title := ''Late''\<rparr>), db0\<lparr>events := [event0\<lparr>ev_title := ''Late''\<rparr>]\<rparr>)"
  by code_simp

text \<open>
  Claim C9: an event-creation or event-update request with a date before the current
  day raises the \<open>ValidationError\<close> "Event date cannot be in the past" (422), and a date
  equal to or later than the current day is accepted. \<open>update_event\<close> has the branch
  that would do so, but no request with a date reaches it: the field \<open>date\<close> of
  \<open>EventUpdate\<close> admits \<open>None\<close> alone, and the route refuses every body that carries a date,
  past, present or future, with the \<open>RequestValidationError\<close> of the schema (422, with the
  message of the handler, not that of the endpoint), the store left as it was.
\<close>

theorem put_event_refuses_every_date:
  "put_event clean event_id (body\<lparr>eb_date := Some d\<rparr>) db =
     (Inl (RequestValidationError (EventUpdate_errors (body\<lparr>eb_date := Some d\<rparr>))), db) \<and>
   ''date'' \<in> set (EventUpdate_errors (body\<lparr>eb_date := Some d\<rparr>)) \<and>
   status_code (RequestValidationError (EventUpdate_errors (body\<lparr>eb_date := Some d\<rparr>))) = 422"
proof -
  have m: "''date'' \<in> set (EventUpdate_errors (body\<lparr>eb_date := Some d\<rparr>))"
    by (simp add: EventUpdate_errors_def field_errors_def)
  then obtain e es where "EventUpdate_errors (body\<lparr>eb_date := Some d\<rparr>) = e # es"
    by (cases "EventUpdate_errors (body\<lparr>eb_date := Some d\<rparr>)") auto
  then have "put_event clean event_id (body\<lparr>eb_date := Some d\<rparr>) db =
     (Inl (RequestValidationError (EventUpdate_errors (body\<lparr>eb_date := Some d\<rparr>))), db)"
    by (simp add: put_event_def)
  with m show ?thesis by simp
qed

section \<open>Properties of the hackathon teams\<close>

lemma HackathonTeamCreate_errors_nonempty:
  assumes "length (tc_team_members body) \<noteq> 4 \<or>
           length (filter tm_is_leader (tc_team_members body)) \<noteq> 1"
  shows "HackathonTeamCreate_errors email_validate body \<noteq> []"
  using assms
  by (auto simp: HackathonTeamCreate_errors_def validate_team_members_def Let_def
           split: sum.splits)

text \<open>
  Claim C5: a request to create a hackathon team whose list of members has not exactly
  4 members, or has not exactly one member with \<open>is_leader\<close> true, is refused by the
  schema: the validator of the list raises its error, the route answers with the
  validation error (422, \<open>VALIDATION_ERROR\<close>) without calling the endpoint, and the
  store is as it was, so no team and no member was written.
\<close>

theorem team_shape_rejected:
  assumes "length (tc_team_members body) \<noteq> 4 \<or>
           length (filter tm_is_leader (tc_team_members body)) \<noteq> 1"
  shows "\<exists>errs msg.
           post_hackathon_teams clean email_validate body db =
             (Inl (RequestValidationError errs), db) \<and>
           status_code (RequestValidationError errs) = 422 \<and>
           error_code (RequestValidationError errs) = Some ''VALIDATION_ERROR'' \<and>
           validate_team_members (tc_team_members body) = Inl msg"
proof -
  from assms have "HackathonTeamCreate_errors email_validate body \<noteq> []"
    by (rule HackathonTeamCreate_errors_nonempty)
  then obtain e es where "HackathonTeamCreate_errors email_validate body = e # es"
    by (cases "HackathonTeamCreate_errors email_validate body") auto
  then have 1: "post_hackathon_teams clean email_validate body db =
             (Inl (RequestValidationError (e # es)), db)"
    by (simp add: post_hackathon_teams_def)
  from assms have 2: "\<exists>msg. validate_team_members (tc_team_members body) = Inl msg"
    by (auto simp: validate_team_members_def Let_def)
  from 1 2 show ?thesis by auto
qed

theorem team_shape_rejected_witness:
  "length (tc_team_members (team0\<lparr>tc_team_members := [member0, member1, member1]\<rparr>)) = 3 \<and>
   post_hackathon_teams strip_markup with_at_sign
     (team0\<lparr>tc_team_members := [member0, member1, member1]\<rparr>) db0 =
     (Inl (RequestValidationError [''team_members'']), db0) \<and>
   length (filter tm_is_leader
             (tc_team_members (team0\<lparr>tc_team_members := [member1, member1, member1, member1]\<rparr>)))
     = 0 \<and>
   post_hackathon_teams strip_markup with_at_sign
     (team0\<lparr>tc_team_members := [member1, member1, member1, member1]\<rparr>) db0 =
     (Inl (RequestValidationError [''team_members'']), db0) \<and>
   length (filter tm_is_leader
             (tc_team_members (team0\<lparr>tc_team_members := [member0, member0, member1, member1]\<rparr>)))
     = 2 \<and>
   post_hackathon_teams strip_markup with_at_sign
     (team0\<lparr>tc_team_members := [member0, member0, member1, member1]\<rparr>) db0 =
     (Inl (RequestValidationError [''team_members'']), db0) \<and>
   fst (post_hackathon_teams strip_markup with_at_sign team0 db0) =
     fst (create_hackathon_team strip_markup team0 db0)"
proof -
  let ?three = "team0\<lparr>tc_team_members := [member0, member1, member1]\<rparr>"
  let ?none = "team0\<lparr>tc_team_members := [member1, member1, member1, member1]\<rparr>"
  let ?two = "team0\<lparr>tc_team_members := [member0, member0, member1, member1]\<rparr>"
  have l3: "length (tc_team_members ?three) = 3" by simp
  have l0: "length (filter tm_is_leader (tc_team_members ?none)) = 0"
    by (simp add: member1_def)
  have l2: "length (filter tm_is_leader (tc_team_members ?two)) = 2"
    by (simp add: member0_def member1_def)
  have e3: "HackathonTeamCreate_errors with_at_sign ?three = [''team_members'']"
    by code_simp
  have e0: "HackathonTeamCreate_errors with_at_sign ?none = [''team_members'']"
    by code_simp
  have e2: "HackathonTeamCreate_errors with_at_sign ?two = [''team_members'']"
    by code_simp
  have ok: "fst (post_hackathon_teams strip_markup with_at_sign team0 db0) =
            fst (create_hackathon_team strip_markup team0 db0)"
    by code_simp
  from team_shape_rejected [of ?three strip_markup with_at_sign db0]
       team_shape_rejected [of ?none strip_markup with_at_sign db0]
       team_shape_rejected [of ?two strip_markup with_at_sign db0]
       l3 l0 l2 e3 e0 e2 ok
  show ?thesis by (simp add: post_hackathon_teams_def)
qed

lemma map_new_member_email:
  "map (mem_email \<circ> new_member clean t) (enumerate n xs) = map (str_lower \<circ> tm_email) xs"
  by (induction xs arbitrary: n) (simp_all add: new_member_def)

lemma map_new_member_division:
  "map (mem_division \<circ> new_member clean t) (enumerate n xs) =
   map (str_upper \<circ> tm_division) xs"
  by (induction xs arbitrary: n) (simp_all add: new_member_def)

lemma new_member_team:
  "m \<in> set (map (new_member clean t) (enumerate n xs)) \<Longrightarrow> mem_team_id m = t"
  by (auto simp: new_member_def)

text \<open>
  Claim C10: when \<open>create_hackathon_team\<close> succeeds (its status is 201), the store gains
  the team and, after the members it had, the members of the team, in the order of the
  request; the email of each is the lower-cased email of the request's member, and its
  division the upper-cased division.
\<close>

theorem team_members_normalised:
  assumes "create_hackathon_team clean team_data db = (Inr (st, team, members), db')"
  shows "st = 201 \<and>
         hackathon_teams db' = hackathon_teams db @ [team] \<and>
         team_members db' = team_members db @ members \<and>
         (\<forall>m \<in> set members. mem_team_id m = team_id team) \<and>
         map mem_email members = map (str_lower \<circ> tm_email) (tc_team_members team_data) \<and>
         map mem_division members =
           map (str_upper \<circ> tm_division) (tc_team_members team_data)"
  using assms
  by (auto simp: create_hackathon_team_def Let_def map_new_member_email
                 map_new_member_division new_member_team split: if_splits)

theorem team_members_normalised_witness:
  "\<exists>members db'.
     create_hackathon_team strip_markup team0 db0 =
       (Inr (201, \<lparr>team_id = 2, team_event_name = ''HackAPSIT'',
                   team_team_name = ''Null Pointers''\<rparr>, members), db') \<and>
     team_members db' = members \<and>
     map tm_email (tc_team_members team0) =
       [''Ada@APSIT.edu.in'', ''bob@apsit.edu.in'', ''bob@apsit.edu.in'', ''bob@apsit.edu.in''] \<and>
     map mem_email members =
       [''ada@apsit.edu.in'', ''bob@apsit.edu.in'', ''bob@apsit.edu.in'', ''bob@apsit.edu.in''] \<and>
     map tm_division (tc_team_members team0) = [''b'', ''A'', ''A'', ''A''] \<and>
     map mem_division members = [''B'', ''A'', ''A'', ''A'']"
proof -
  obtain r db' where r: "create_hackathon_team strip_markup team0 db0 = (r, db')"
    by (cases "create_hackathon_team strip_markup team0 db0")
  have "fst (create_hackathon_team strip_markup team0 db0) =
          Inr (201, \<lparr>team_id = 2, team_event_name = ''HackAPSIT'',
                     team_team_name = ''Null Pointers''\<rparr>,
               snd (snd (projr (fst (create_hackathon_team strip_markup team0 db0)))))"
    by code_simp
  with r obtain members where
    c: "create_hackathon_team strip_markup team0 db0 =
          (Inr (201, \<lparr>team_id = 2, team_event_name = ''HackAPSIT'',
                      team_team_name = ''Null Pointers''\<rparr>, members), db')"
    by auto
  have e: "map (str_lower \<circ> tm_email) (tc_team_members team0) =
       [''ada@apsit.edu.in'', ''bob@apsit.edu.in'', ''bob@apsit.edu.in'', ''bob@apsit.edu.in'']"
    by code_simp
  have d: "map (str_upper \<circ> tm_division) (tc_team_members team0) = [''B'', ''A'', ''A'', ''A'']"
    by code_simp
  have e0: "map tm_email (tc_team_members team0) =
       [''Ada@APSIT.edu.in'', ''bob@apsit.edu.in'', ''bob@apsit.edu.in'', ''bob@apsit.edu.in'']"
    by code_simp
  have d0: "map tm_division (tc_team_members team0) = [''b'', ''A'', ''A'', ''A'']"
    by code_simp
  have t: "team_members db0 = []" by (simp add: db0_def)
  from team_members_normalised [OF c] c e d e0 d0 t
  show ?thesis by (intro exI [of _ members] exI [of _ db']) simp
qed

section \<open>Properties of the upload validation\<close>

lemma endswith_pdf_nonempty: "endswith (str_lower name) ''.pdf'' \<Longrightarrow> name \<noteq> []"
  by (auto simp: endswith_def str_lower_def)

lemma validate_pdf_file_eq:
  "validate_pdf_file file =
     (case spec_first_failure settings file of
        Some BadExtension \<Rightarrow> (False, Some (reject_detail settings BadExtension))
      | Some BadContentType \<Rightarrow> (False, Some (reject_detail settings BadContentType))
      | _ \<Rightarrow> (True, None))"
  by (auto simp: validate_pdf_file_def spec_first_failure_def endswith_pdf_nonempty
           split: option.splits)

lemma default_max_file_size: "max_file_size_bytes default_settings = 10 * 1024 * 1024"
  by (simp add: max_file_size_bytes_def default_settings_def)

lemma upload_accepted:
  assumes "spec_first_failure settings file = None"
    and "sniff (content file) = None \<or> sniff (content file) = Some ''application/pdf''"
  shows "\<exists>url w'. save_pdf_file settings sniff file w = (Inr (url, length (content file)), w')"
  using assms
  by (auto simp: spec_first_failure_def save_pdf_file_def Let_def validate_pdf_magic_bytes_def
           split: if_splits)

text \<open>
  Claim C4: an upload is checked in the order of the specification: the file name ends
  in \<open>.pdf\<close> whatever its case, the declared content type is \<open>application/pdf\<close>, the
  content is no longer than the configured maximum (10 MiB with the default settings),
  the first 4 bytes are \<open>%PDF\<close>. When a check fails, and \<open>reason\<close> is the first that does,
  \<open>create_resource\<close> raises the exception of that check, with the status 400 for the
  extension, the content type and the signature, and 413 for the size; it has written
  no file and no row. (The type detection of \<open>python-magic\<close>, where installed, comes
  after the four checks.)
\<close>

theorem upload_rejected_by_first_failure:
  assumes "spec_first_failure settings file = Some reason"
  shows "create_resource settings sniff clean title level file w =
           (Inl (HTTPException (reject_status reason) (reject_detail settings reason)), w) \<and>
         reject_status reason = (if reason = TooLarge then 413 else 400) \<and>
         max_file_size_bytes default_settings = 10 * 1024 * 1024"
proof -
  have "create_resource settings sniff clean title level file w =
           (Inl (HTTPException (reject_status reason) (reject_detail settings reason)), w)"
  proof (cases reason)
    case BadExtension
    with assms show ?thesis
      by (simp add: create_resource_def validate_pdf_file_eq [of "file" "settings"]
                    upload_detail_def)
  next
    case BadContentType
    with assms show ?thesis
      by (simp add: create_resource_def validate_pdf_file_eq [of "file" "settings"]
                    upload_detail_def)
  next
    case TooLarge
    with assms have v: "validate_pdf_file file = (True, None)"
      by (simp add: validate_pdf_file_eq [of "file" "settings"])
    from TooLarge assms have "length (content file) > max_file_size_bytes settings"
      by (auto simp: spec_first_failure_def split: if_splits)
    then have "save_pdf_file settings sniff file w =
        (Inl (HTTPException 413 (reject_detail settings TooLarge)), w)"
      by (simp add: save_pdf_file_def Let_def)
    with v TooLarge show ?thesis by (simp add: create_resource_def)
  next
    case InvalidSignature
    with assms have v: "validate_pdf_file file = (True, None)"
      by (simp add: validate_pdf_file_eq [of "file" "settings"])
    from InvalidSignature assms
    have "\<not> length (content file) > max_file_size_bytes settings"
      and "take 4 (content file) \<noteq> ''%PDF''"
      by (auto simp: spec_first_failure_def split: if_splits)
    then have "save_pdf_file settings sniff file w =
        (Inl (HTTPException 400 (reject_detail settings InvalidSignature)), w)"
      by (simp add: save_pdf_file_def Let_def validate_pdf_magic_bytes_def)
    with v InvalidSignature show ?thesis by (simp add: create_resource_def)
  qed
  moreover have "reject_status reason = (if reason = TooLarge then 413 else 400)"
    by (cases reason) simp_all
  ultimately show ?thesis by (simp add: default_max_file_size)
qed

theorem upload_rejected_by_first_failure_witness:
  "create_resource default_settings no_sniff strip_markup ''Notes'' BEGINNER
     (upload0\<lparr>filename := Some ''notes.txt'', content_type := Some ''text/plain'',
               content := ''hello''\<rparr>) world0 =
     (Inl (HTTPException 400 ''File must be a PDF (.pdf extension required)''), world0) \<and>
   create_resource default_settings no_sniff strip_markup ''Notes'' BEGINNER
     (upload0\<lparr>content_type := Some ''text/plain'', content := ''hello''\<rparr>) world0 =
     (Inl (HTTPException 400 ''File must be of type application/pdf''), world0) \<and>
   create_resource (default_settings\<lparr>max_file_size_mb := 0\<rparr>) no_sniff strip_markup ''Notes''
     BEGINNER (upload0\<lparr>content := ''hello''\<rparr>) world0 =
     (Inl (HTTPException 413 ''File size exceeds maximum allowed size of 0MB''), world0) \<and>
   create_resource default_settings no_sniff strip_markup ''Notes'' BEGINNER
     (upload0\<lparr>filename := Some ''evil.pdf'', content := ''<html>''\<rparr>) world0 =
     (Inl (HTTPException 400 ''File is not a valid PDF''), world0)"
proof -
  let ?ext = "upload0\<lparr>filename := Some ''notes.txt'', content_type := Some ''text/plain'',
                       content := ''hello''\<rparr>"
  let ?ctype = "upload0\<lparr>content_type := Some ''text/plain'', content := ''hello''\<rparr>"
  let ?small = "default_settings\<lparr>max_file_size_mb := 0\<rparr>"
  let ?large = "upload0\<lparr>content := ''hello''\<rparr>"
  let ?sig = "upload0\<lparr>filename := Some ''evil.pdf'', content := ''<html>''\<rparr>"
  have n: "str_lower ''notes.txt'' = ''notes.txt''" "str_lower ''Guide.PDF'' = ''guide.pdf''"
    "str_lower ''evil.pdf'' = ''evil.pdf''"
    by code_simp+
  have z: "digits10 0 = ''0''" by code_simp
  have 1: "spec_first_failure default_settings ?ext = Some BadExtension"
    by (simp add: spec_first_failure_def upload0_def n endswith_def)
  have 2: "spec_first_failure default_settings ?ctype = Some BadContentType"
    by (simp add: spec_first_failure_def upload0_def n endswith_def)
  have 3: "spec_first_failure ?small ?large = Some TooLarge"
    by (simp add: spec_first_failure_def upload0_def n endswith_def max_file_size_bytes_def
                  default_settings_def)
  have 4: "spec_first_failure default_settings ?sig = Some InvalidSignature"
    by (simp add: spec_first_failure_def upload0_def n endswith_def max_file_size_bytes_def
                  default_settings_def)
  from upload_rejected_by_first_failure [OF 1, of no_sniff strip_markup "''Notes''" BEGINNER world0]
       upload_rejected_by_first_failure [OF 2, of no_sniff strip_markup "''Notes''" BEGINNER world0]
       upload_rejected_by_first_failure [OF 3, of no_sniff strip_markup "''Notes''" BEGINNER world0]
       upload_rejected_by_first_failure [OF 4, of no_sniff strip_markup "''Notes''" BEGINNER world0]
  show ?thesis by (simp add: default_settings_def z)
qed

section \<open>Properties of the resource files\<close>

lemma save_pdf_file_trace:
  assumes "save_pdf_file settings sniff f w = (Inr (url, sz), w')"
  shows "\<exists>path. trace w' = trace w @ [FileWritten path]"
  using assms by (auto simp: save_pdf_file_def Let_def split: if_splits)

lemma commit_resource_trace:
  assumes "commit_resource r w = Inr w'"
  shows "trace w' = trace w @ [RowCommitted (res_id r)]"
  using assms by (auto simp: commit_resource_def split: if_splits)

lemma delete_file_trace:
  assumes "file_exists p w"
  shows "trace (snd (delete_file p w)) = trace w @ [FileDeleted p]"
  using assms by (simp add: delete_file_def)

lemma find_resource_id:
  assumes "find (\<lambda>r. res_id r = i) rs = Some r"
  shows "res_id r = i"
  using assms by (auto simp: find_Some_iff)

lemma uuid_str_6: "uuid_str 6 = ''6''"
  by code_simp

lemma validate_upload0: "validate_pdf_file upload0 = (True, None)"
  by code_simp

lemma magic_upload0: "validate_pdf_magic_bytes no_sniff (content upload0)"
  by code_simp

lemma size_upload0: "\<not> length (content upload0) > max_file_size_bytes default_settings"
  by (simp add: upload0_def max_file_size_bytes_def default_settings_def)

lemma save_upload0:
  "save_pdf_file default_settings no_sniff upload0 w =
     (Inr (''uploads/'' @ uuid_str (next_uuid (store w)) @ ''.pdf'', 10),
      w\<lparr>store := (store w)\<lparr>next_uuid := Suc (next_uuid (store w))\<rparr>,
        files := (files w)(''uploads/'' @ uuid_str (next_uuid (store w)) @ ''.pdf'' \<mapsto>
                            ''%PDF-1.7 b''),
        trace := trace w @
                 [FileWritten (''uploads/'' @ uuid_str (next_uuid (store w)) @ ''.pdf'')]\<rparr>)"
  using magic_upload0 size_upload0
  by (simp add: save_pdf_file_def Let_def) (simp add: upload0_def default_settings_def)

lemma update_world0:
  "update_resource default_settings no_sniff strip_markup 5 None None (Some upload0) world0 =
     (Inr (200, resource0\<lparr>res_file_url := ''uploads/6.pdf''\<rparr>),
      \<lparr>store = \<lparr>events = [], registrations = [], hackathon_teams = [], team_members = [],
                resources = [resource0\<lparr>res_file_url := ''uploads/6.pdf''\<rparr>], next_uuid = 7\<rparr>,
       files = [''uploads/6.pdf'' \<mapsto> ''%PDF-1.7 b''],
       trace = [FileDeleted ''uploads/4.pdf'', FileWritten ''uploads/6.pdf'',
                RowCommitted 5]\<rparr>)"
  by (simp add: update_resource_def validate_upload0 save_upload0 Let_def file_exists_def
                delete_file_def commit_resource_def world0_def resource0_def uuid_str_6
                ResourceResponse_ok_def length_between_def)

lemma delete_world0:
  "delete_resource 5 world0 =
     (Inr (204, ()),
      \<lparr>store = \<lparr>events = [], registrations = [], hackathon_teams = [], team_members = [],
                resources = [], next_uuid = 6\<rparr>,
       files = Map.empty,
       trace = [FileDeleted ''uploads/4.pdf'', RowDeleted 5]\<rparr>)"
  by (simp add: delete_resource_def world0_def resource0_def file_exists_def delete_file_def
                remove_resource_def)

text \<open>
  What the order costs: a replacement whose upload passes \<open>validate_pdf_file\<close> and fails
  the signature check of \<open>save_pdf_file\<close> has already unlinked the previous file, and the
  row, which is not committed, still names it.
\<close>

lemma update_world0_bad_signature:
  "update_resource default_settings no_sniff strip_markup 5 None None
     (Some (upload0\<lparr>content := ''<html>''\<rparr>)) world0 =
     (Inl (HTTPException 400 ''File is not a valid PDF''),
      world0\<lparr>files := Map.empty, trace := [FileDeleted ''uploads/4.pdf'']\<rparr>)"
proof -
  have v: "validate_pdf_file (upload0\<lparr>content := ''<html>''\<rparr>) = (True, None)"
    by code_simp
  have m: "\<not> validate_pdf_magic_bytes no_sniff ''<html>''"
    by code_simp
  show ?thesis
    using m
    by (simp add: update_resource_def v Let_def file_exists_def delete_file_def
                  save_pdf_file_def max_file_size_bytes_def default_settings_def
                  world0_def resource0_def)
qed

text \<open>
  Claim C2, as the specification states it: when the file of a resource is replaced,
  the previous file is deleted only after the new file is written and the row
  committed; when a resource is deleted, the file is deleted only after the row is
  removed. \<open>update_resource\<close> and \<open>delete_resource\<close> both unlink the file first. The store
  holds the resource 5 with the file \<open>uploads/4.pdf\<close>; replacing the file with a valid
  PDF unlinks \<open>uploads/4.pdf\<close>, then writes \<open>uploads/6.pdf\<close>, then commits the row;
  deleting the resource unlinks \<open>uploads/4.pdf\<close>, then removes the row.
\<close>

theorem resource_file_deleted_before_commit:
  "trace (snd (update_resource default_settings no_sniff strip_markup 5 None None
                 (Some upload0) world0)) =
     [FileDeleted ''uploads/4.pdf'', FileWritten ''uploads/6.pdf'', RowCommitted 5] \<and>
   \<not> only_after (FileDeleted ''uploads/4.pdf'') (FileWritten ''uploads/6.pdf'')
       (trace (snd (update_resource default_settings no_sniff strip_markup 5 None None
                      (Some upload0) world0))) \<and>
   \<not> only_after (FileDeleted ''uploads/4.pdf'') (RowCommitted 5)
       (trace (snd (update_resource default_settings no_sniff strip_markup 5 None None
                      (Some upload0) world0))) \<and>
   trace (snd (delete_resource 5 world0)) = [FileDeleted ''uploads/4.pdf'', RowDeleted 5] \<and>
   \<not> only_after (FileDeleted ''uploads/4.pdf'') (RowDeleted 5)
       (trace (snd (delete_resource 5 world0)))"
  by (simp add: update_world0 delete_world0 only_after_def)

text \<open>
  Claim C2, amended: for every resource of the store whose file exists, a replacement
  of the file that succeeds has deleted the previous file first, then written the new
  file, then committed the row; and the deletion of the resource deletes the file
  first, then removes the row.
\<close>

theorem resource_file_deleted_first:
  assumes found: "find (\<lambda>r. res_id r = resource_id) (resources (store w)) = Some resource"
    and there: "file_exists (res_file_url resource) w"
  shows "(\<forall>st resource' w'.
            update_resource settings sniff clean resource_id title level (Some f) w =
              (Inr (st, resource'), w') \<longrightarrow>
            (\<exists>new_path. trace w' = trace w @ [FileDeleted (res_file_url resource),
                                              FileWritten new_path,
                                              RowCommitted resource_id])) \<and>
         (\<exists>w'. delete_resource resource_id w = (Inr (204, ()), w') \<and>
               trace w' = trace w @ [FileDeleted (res_file_url resource),
                                     RowDeleted resource_id])"
proof (intro conjI allI impI)
  fix st resource' w'
  assume ok: "update_resource settings sniff clean resource_id title level (Some f) w =
              (Inr (st, resource'), w')"
  let ?r1 = "case title of None \<Rightarrow> resource
             | Some t \<Rightarrow> resource\<lparr>res_title := sanitize_string clean t (Some 200)\<rparr>"
  let ?r2 = "case level of None \<Rightarrow> ?r1 | Some l \<Rightarrow> ?r1\<lparr>res_level := l\<rparr>"
  have url: "res_file_url ?r2 = res_file_url resource" and id: "res_id ?r2 = resource_id"
    using find_resource_id [OF found] by (auto split: option.splits)
  let ?w1 = "snd (delete_file (res_file_url resource) w)"
  have t1: "trace ?w1 = trace w @ [FileDeleted (res_file_url resource)]"
    using there by (rule delete_file_trace)
  from ok found there url obtain file_url file_size w2 where
    s: "save_pdf_file settings sniff f ?w1 = (Inr (file_url, file_size), w2)" and
    c: "commit_resource (?r2\<lparr>res_file_url := file_url, res_file_size := file_size\<rparr>) w2 =
        Inr w'"
    by (auto simp: update_resource_def Let_def
             split: prod.splits bool.splits sum.splits db_error.splits if_splits)
  from save_pdf_file_trace [OF s] obtain p where t2: "trace w2 = trace ?w1 @ [FileWritten p]" ..
  from commit_resource_trace [OF c] id have
    t3: "trace w' = trace w2 @ [RowCommitted resource_id]" by simp
  from t1 t2 t3 show "\<exists>new_path. trace w' = trace w @ [FileDeleted (res_file_url resource),
                                              FileWritten new_path,
                                              RowCommitted resource_id]"
    by simp
next
  show "\<exists>w'. delete_resource resource_id w = (Inr (204, ()), w') \<and>
               trace w' = trace w @ [FileDeleted (res_file_url resource),
                                     RowDeleted resource_id]"
    using found there find_resource_id [OF found]
    by (simp add: delete_resource_def Let_def remove_resource_def delete_file_def)
qed

theorem resource_file_deleted_first_witness:
  "find (\<lambda>r. res_id r = 5) (resources (store world0)) = Some resource0 \<and>
   file_exists (res_file_url resource0) world0 \<and>
   fst (update_resource default_settings no_sniff strip_markup 5 None None (Some upload0)
          world0) = Inr (200, resource0\<lparr>res_file_url := ''uploads/6.pdf''\<rparr>) \<and>
   trace (snd (update_resource default_settings no_sniff strip_markup 5 None None
                 (Some upload0) world0)) =
     trace world0 @ [FileDeleted (res_file_url resource0), FileWritten ''uploads/6.pdf'',
                     RowCommitted 5] \<and>
   fst (delete_resource 5 world0) = Inr (204, ()) \<and>
   trace (snd (delete_resource 5 world0)) =
     trace world0 @ [FileDeleted (res_file_url resource0), RowDeleted 5]"
proof -
  have f: "find (\<lambda>r. res_id r = 5) (resources (store world0)) = Some resource0"
    by (simp add: world0_def resource0_def)
  have t: "file_exists (res_file_url resource0) world0"
    by (simp add: file_exists_def world0_def resource0_def)
  have e: "trace world0 = []" "res_file_url resource0 = ''uploads/4.pdf''"
    by (simp_all add: world0_def resource0_def)
  from resource_file_deleted_first
         [OF f t, of default_settings no_sniff strip_markup None None upload0] f t
  show ?thesis by (simp add: update_world0 delete_world0 e)
qed

section \<open>Properties of the credential verifier\<close>

lemma verify_password_returns_iff:
  "(\<exists>b. verify_password ph_verify plain hashed = Inr b) =
   (ph_verify hashed plain = Verified \<or> ph_verify hashed plain = VerifyMismatchError)"
  by (auto simp: verify_password_def split: argon2_outcome.splits)

text \<open>
  Claim C3: \<open>verify_password\<close> returns a boolean and never raises, also on a malformed
  stored hash. The function catches \<open>VerifyMismatchError\<close> alone: on the stored hash
  \<open>not-a-hash\<close>, which has no Argon2 header, the verifier raises \<open>InvalidHashError\<close>, and
  the exception leaves \<open>verify_password\<close>, whatever the Argon2 core is.
\<close>

theorem verify_password_raises_on_malformed_hash:
  "verify_password (argon2_verify core) ''secret'' ''not-a-hash'' = Inl InvalidHashError"
  by (simp add: verify_password_def argon2_verify_def)

end
